theory Spec2Isabelle
  imports Complex_Main "HOL-Library.AList"
begin

section \<open>The spreadsheet grid of \<^verbatim>\<open>src/Components/ExcelGrid.tsx\<close>\<close>

text \<open>
  A shallow embedding of the calculation core of the grid component: the column label
  codec (\<^verbatim>\<open>getColumnLabel\<close>, \<^verbatim>\<open>parseReference\<close>), the formula evaluator
  (\<^verbatim>\<open>evaluateFormula\<close>), the cell store update with its recalculation loop
  (\<^verbatim>\<open>updateCell\<close>) and the viewport window (\<^verbatim>\<open>visibleRange\<close>).

  Conventions. Every JavaScript number, row and column indices included, is a binary64
  value (\<open>jsnum\<close> below) and every operator on numbers rounds as the language does;
  only the viewport window is computed on finite numbers taken as rationals (see there).
  Strings are \<^typ>\<open>string\<close>; a character is identified with its code
  (\<^verbatim>\<open>charCodeAt\<close> is \<^const>\<open>of_char\<close>), so the model covers texts whose code units
  are below 256. Program text that a formula hands to \<^verbatim>\<open>Function\<close> can do anything:
  what it does is a parameter of the model (\<open>runtime\<close> below). The one assumption is
  that it leaves the built-in functions which the component itself calls as they are
  (\<^verbatim>\<open>Map\<close>, \<^verbatim>\<open>String.prototype.replace\<close>, \<^verbatim>\<open>parseFloat\<close>, \<^verbatim>\<open>parseInt\<close>, the
  \<^verbatim>\<open>toString\<close> of numbers, strings and booleans, \<^verbatim>\<open>Math.floor\<close>).
\<close>

subsection \<open>Constants of the grid\<close>

definition CELL_WIDTH :: int where "CELL_WIDTH = 100"
definition CELL_HEIGHT :: int where "CELL_HEIGHT = 30"
definition TOTAL_ROWS :: int where "TOTAL_ROWS = 10000"
definition TOTAL_COLS :: int where "TOTAL_COLS = 10000"

section \<open>The JavaScript runtime the component uses\<close>

subsection \<open>Characters\<close>

text \<open>The character classes \<^verbatim>\<open>[A-Z]\<close> and \<^verbatim>\<open>\d\<close> of the regular expressions.\<close>

definition isUpper :: "char \<Rightarrow> bool" where
  "isUpper c = (65 \<le> (of_char c :: int) \<and> (of_char c :: int) \<le> 90)"

definition isDigit :: "char \<Rightarrow> bool" where
  "isDigit c = (48 \<le> (of_char c :: int) \<and> (of_char c :: int) \<le> 57)"

text \<open>The white space and line terminators that \<^verbatim>\<open>parseFloat\<close> skips (those below 256).\<close>

definition isWhiteSpace :: "char \<Rightarrow> bool" where
  "isWhiteSpace c = ((of_char c :: int) \<in> {9, 10, 11, 12, 13, 32, 160})"

text \<open>The characters of an identifier name, among the ASCII ones.\<close>

definition isIdentChar :: "char \<Rightarrow> bool" where
  "isIdentChar c =
     (isUpper c \<or> isDigit c \<or> (97 \<le> (of_char c :: int) \<and> (of_char c :: int) \<le> 122) \<or>
      c = CHR ''_'' \<or> c = CHR ''$'')"

subsection \<open>Numbers\<close>

text \<open>
  A JavaScript number is an IEEE 754 binary64 value: not-a-number, the two infinities,
  the two zeros, or a finite non-zero rational that the format represents. \<open>Fin 0\<close> is
  the positive zero. Every arithmetic result is the exact rational result rounded to the
  nearest representable value, ties to the even significand (\<open>round64\<close>).
\<close>

datatype jsnum = NaN | PosInf | NegInf | NegZero | Fin rat

definition ipow :: "rat \<Rightarrow> int \<Rightarrow> rat" where
  "ipow b e = (if 0 \<le> e then b ^ nat e else 1 / b ^ nat (- e))"

text \<open>The number of digits of \<open>a\<close> in base \<open>b\<close> (0 for \<open>a \<le> 0\<close>).\<close>

function count_digits :: "int \<Rightarrow> int \<Rightarrow> int" where
  "count_digits b a = (if 0 < a \<and> 1 < b then count_digits b (a div b) + 1 else 0)"
  by pat_completeness auto
termination
  by (relation "measure (\<lambda>(b, a). nat a)") (auto intro: int_div_less_self)

declare count_digits.simps [simp del]

text \<open>For \<open>q > 0\<close>: the exponent \<open>e\<close> with \<open>b ^ e \<le> q < b ^ (e + 1)\<close>.\<close>

definition ilog :: "int \<Rightarrow> rat \<Rightarrow> int" where
  "ilog b q =
     (if 1 \<le> q then count_digits b \<lfloor>q\<rfloor> - 1
      else - count_digits b (\<lceil>1 / q\<rceil> - 1))"

definition round_half_even :: "rat \<Rightarrow> int" where
  "round_half_even x =
     (let f = \<lfloor>x\<rfloor>; d = x - of_int f
      in if d < 1 / 2 then f else if 1 / 2 < d then f + 1 else if even f then f else f + 1)"

text \<open>
  Rounding a positive rational: 53 significant bits, exponents from \<open>-1022\<close> (below,
  the spacing stays \<open>2 ^ - 1074\<close>: subnormal numbers) to 1023 (above, overflow: \<open>None\<close>).
\<close>

definition round64_pos :: "rat \<Rightarrow> rat option" where
  "round64_pos q =
     (let e = max (ilog 2 q) (- 1022);
          ulp = ipow 2 (e - 52);
          r = of_int (round_half_even (q / ulp)) * ulp
      in if ipow 2 1024 \<le> r then None else Some r)"

definition round64 :: "rat \<Rightarrow> jsnum" where
  "round64 q =
     (if q = 0 then Fin 0
      else if 0 < q then (case round64_pos q of None \<Rightarrow> PosInf | Some r \<Rightarrow> Fin r)
      else (case round64_pos (- q) of
              None \<Rightarrow> NegInf
            | Some r \<Rightarrow> if r = 0 then NegZero else Fin (- r)))"

fun negative :: "jsnum \<Rightarrow> bool" where
  "negative NegInf = True"
| "negative NegZero = True"
| "negative (Fin q) = (q < 0)"
| "negative _ = False"

fun is_zero :: "jsnum \<Rightarrow> bool" where
  "is_zero NegZero = True"
| "is_zero (Fin q) = (q = 0)"
| "is_zero _ = False"

fun is_inf :: "jsnum \<Rightarrow> bool" where
  "is_inf PosInf = True"
| "is_inf NegInf = True"
| "is_inf _ = False"

fun fin_val :: "jsnum \<Rightarrow> rat" where
  "fin_val (Fin q) = q"
| "fin_val _ = 0"

definition signed_zero :: "bool \<Rightarrow> jsnum" where
  "signed_zero neg = (if neg then NegZero else Fin 0)"

definition signed_inf :: "bool \<Rightarrow> jsnum" where
  "signed_inf neg = (if neg then NegInf else PosInf)"

text \<open>The operators \<^verbatim>\<open>-x\<close>, \<^verbatim>\<open>+\<close>, \<^verbatim>\<open>-\<close>, \<^verbatim>\<open>*\<close> and \<^verbatim>\<open>/\<close> on numbers.\<close>

fun js_neg :: "jsnum \<Rightarrow> jsnum" where
  "js_neg NaN = NaN"
| "js_neg PosInf = NegInf"
| "js_neg NegInf = PosInf"
| "js_neg NegZero = Fin 0"
| "js_neg (Fin q) = (if q = 0 then NegZero else Fin (- q))"

definition js_add :: "jsnum \<Rightarrow> jsnum \<Rightarrow> jsnum" where
  "js_add a b =
     (if a = NaN \<or> b = NaN then NaN
      else if is_inf a \<and> is_inf b then (if a = b then a else NaN)
      else if is_inf a then a
      else if is_inf b then b
      else if is_zero a \<and> is_zero b then signed_zero (negative a \<and> negative b)
      else round64 (fin_val a + fin_val b))"

definition js_sub :: "jsnum \<Rightarrow> jsnum \<Rightarrow> jsnum" where
  "js_sub a b = js_add a (js_neg b)"

definition js_mul :: "jsnum \<Rightarrow> jsnum \<Rightarrow> jsnum" where
  "js_mul a b =
     (if a = NaN \<or> b = NaN then NaN
      else if is_inf a \<or> is_inf b then
        (if is_zero a \<or> is_zero b then NaN else signed_inf (negative a \<noteq> negative b))
      else if is_zero a \<or> is_zero b then signed_zero (negative a \<noteq> negative b)
      else round64 (fin_val a * fin_val b))"

definition js_div :: "jsnum \<Rightarrow> jsnum \<Rightarrow> jsnum" where
  "js_div a b =
     (if a = NaN \<or> b = NaN then NaN
      else if is_inf a then (if is_inf b then NaN else signed_inf (negative a \<noteq> negative b))
      else if is_inf b then signed_zero (negative a \<noteq> negative b)
      else if is_zero b then
        (if is_zero a then NaN else signed_inf (negative a \<noteq> negative b))
      else if is_zero a then signed_zero (negative a \<noteq> negative b)
      else round64 (fin_val a / fin_val b))"

text \<open>
  The remainder \<^verbatim>\<open>%\<close>: the dividend minus the divisor times the quotient cut towards
  zero, computed exactly (the result is always representable), with the sign of the
  dividend also when it is zero.
\<close>

definition towards_zero :: "rat \<Rightarrow> int" where
  "towards_zero q = (if 0 \<le> q then \<lfloor>q\<rfloor> else \<lceil>q\<rceil>)"

definition js_mod :: "jsnum \<Rightarrow> jsnum \<Rightarrow> jsnum" where
  "js_mod a b =
     (if a = NaN \<or> b = NaN \<or> is_inf a \<or> is_zero b then NaN
      else if is_inf b \<or> is_zero a then a
      else (let r = fin_val a - fin_val b * of_int (towards_zero (fin_val a / fin_val b))
            in if r = 0 then signed_zero (negative a) else Fin r))"

text \<open>\<^verbatim>\<open>Math.floor\<close>.\<close>

fun js_floor :: "jsnum \<Rightarrow> jsnum" where
  "js_floor (Fin q) = Fin (of_int \<lfloor>q\<rfloor>)"
| "js_floor a = a"

text \<open>The comparison \<^verbatim>\<open>a <= b\<close> of two numbers (\<^verbatim>\<open>b >= a\<close>): false when one is \<^verbatim>\<open>NaN\<close>.\<close>

fun js_le :: "jsnum \<Rightarrow> jsnum \<Rightarrow> bool" where
  "js_le NaN b = False"
| "js_le a NaN = False"
| "js_le NegInf b = True"
| "js_le a PosInf = True"
| "js_le PosInf b = False"
| "js_le a NegInf = False"
| "js_le a b = (fin_val a \<le> fin_val b)"

text \<open>
  \<^verbatim>\<open>String.fromCharCode\<close> of a number: the code is the number cut towards zero, modulo
  \<open>2^16\<close>, and 0 for \<^verbatim>\<open>NaN\<close> and the infinities. (Codes from 256 on are outside the
  model's characters; the component produces the codes 65 to 90 only.)
\<close>

definition fromCharCode :: "jsnum \<Rightarrow> char" where
  "fromCharCode a = char_of (towards_zero (fin_val a) mod 65536)"

text \<open>
  Strict equality \<^verbatim>\<open>===\<close> of two numbers: \<^verbatim>\<open>NaN\<close> equals nothing, itself included,
  and the two zeros are equal.
\<close>

definition js_strict_eq_num :: "jsnum \<Rightarrow> jsnum \<Rightarrow> bool" where
  "js_strict_eq_num a b = (a \<noteq> NaN \<and> b \<noteq> NaN \<and> (a = b \<or> (is_zero a \<and> is_zero b)))"

subsection \<open>Numbers to text\<close>

text \<open>The decimal digits of an integer that is not negative.\<close>

function digits_acc :: "int \<Rightarrow> string \<Rightarrow> string" where
  "digits_acc n acc =
     (if n < 10 then ''0123456789'' ! nat n # acc
      else digits_acc (n div 10) (''0123456789'' ! nat (n mod 10) # acc))"
  by pat_completeness auto
termination
  by (relation "measure (\<lambda>(n, acc). nat n)") auto

declare digits_acc.simps [simp del]

definition digits_of :: "int \<Rightarrow> string" where
  "digits_of n = digits_acc n []"

definition int_of_digits :: "string \<Rightarrow> int" where
  "int_of_digits s = foldl (\<lambda>n c. n * 10 + (of_char c - 48)) 0 s"

text \<open>
  \<^verbatim>\<open>Number.prototype.toString\<close> (radix 10) of a positive finite \<open>x\<close> takes the
  shortest digit string \<open>s\<close> (of \<open>k\<close> digits) and the exponent \<open>n\<close> such that
  \<open>s * 10 ^ (n - k)\<close> rounds to \<open>x\<close>, the closest to \<open>x\<close> if there are several. For the
  exponent \<open>n\<close> of \<open>x\<close> itself, the candidates with \<open>k\<close> digits are the two integers
  around \<open>x / 10 ^ (n - k)\<close>; 17 digits always suffice.
\<close>

definition nearest_k :: "rat \<Rightarrow> int \<Rightarrow> int \<Rightarrow> int" where
  "nearest_k x n k =
     (let scale = ipow 10 (n - k);
          lo = \<lfloor>x / scale\<rfloor>;
          dlo = x - of_int lo * scale;
          dhi = of_int (lo + 1) * scale - x
      in if dlo < dhi then lo else if dhi < dlo then lo + 1 else if even lo then lo else lo + 1)"

definition digits_k :: "rat \<Rightarrow> int \<Rightarrow> int \<Rightarrow> int option" where
  "digits_k x n k =
     (let scale = ipow 10 (n - k);
          lo = \<lfloor>x / scale\<rfloor>;
          lo_ok = (round64 (of_int lo * scale) = Fin x);
          hi_ok = (round64 (of_int (lo + 1) * scale) = Fin x)
      in if lo_ok \<and> hi_ok then Some (nearest_k x n k)
         else if lo_ok then Some lo
         else if hi_ok then Some (lo + 1)
         else None)"

function shortest_digits :: "int \<Rightarrow> rat \<Rightarrow> int \<Rightarrow> int \<times> int" where
  "shortest_digits k x n =
     (if 17 \<le> k then (nearest_k x n k, k)
      else (case digits_k x n k of
              Some s \<Rightarrow> (s, k)
            | None \<Rightarrow> shortest_digits (k + 1) x n))"
  by pat_completeness auto
termination
  by (relation "measure (\<lambda>(k, x, n). nat (17 - k))") auto

declare shortest_digits.simps [simp del]

definition strip_zeros :: "string \<Rightarrow> string" where
  "strip_zeros ds = rev (dropWhile (\<lambda>c. c = CHR ''0'') (rev ds))"

text \<open>
  The layout of the digits \<open>ds\<close> with exponent \<open>n\<close>: plain digits with trailing zeros,
  a decimal point inside, a leading \<^verbatim>\<open>0.\<close>, or exponent notation beyond \<open>10^21\<close> and
  below \<open>10^-6\<close>.
\<close>

definition format_number :: "string \<Rightarrow> int \<Rightarrow> string" where
  "format_number ds n =
     (let k = int (length ds)
      in if k \<le> n \<and> n \<le> 21 then ds @ replicate (nat (n - k)) CHR ''0''
         else if 0 < n \<and> n \<le> 21 then take (nat n) ds @ ''.'' @ drop (nat n) ds
         else if - 6 < n \<and> n \<le> 0 then ''0.'' @ replicate (nat (- n)) CHR ''0'' @ ds
         else (if k = 1 then ds else hd ds # CHR ''.'' # tl ds) @ ''e''
              @ (if 0 \<le> n - 1 then ''+'' else ''-'') @ digits_of \<bar>n - 1\<bar>)"

definition positive_toString :: "rat \<Rightarrow> string" where
  "positive_toString x =
     (let n = ilog 10 x + 1;
          (s, k) = shortest_digits 1 x n;
          all = digits_of s
      in format_number (strip_zeros all) (n + int (length all) - k))"

fun number_toString :: "jsnum \<Rightarrow> string" where
  "number_toString NaN = ''NaN''"
| "number_toString PosInf = ''Infinity''"
| "number_toString NegInf = ''-Infinity''"
| "number_toString NegZero = ''0''"
| "number_toString (Fin q) =
     (if q = 0 then ''0''
      else if q < 0 then CHR ''-'' # positive_toString (- q)
      else positive_toString q)"

subsection \<open>Text to numbers\<close>

text \<open>
  A decimal literal at the front of a text: digits, an optional fraction, an optional
  exponent (taken only when it has digits). The result is its exact value and the rest of
  the text, or \<open>None\<close> when the text starts with no digit.
\<close>

definition scan_exponent :: "string \<Rightarrow> (int \<times> string) option" where
  "scan_exponent s =
     (case s of
        [] \<Rightarrow> None
      | c # r \<Rightarrow>
          if c = CHR ''e'' \<or> c = CHR ''E'' then
            (let neg = (r \<noteq> [] \<and> hd r = CHR ''-'');
                 r' = (if r \<noteq> [] \<and> (hd r = CHR ''-'' \<or> hd r = CHR ''+'') then tl r else r);
                 es = takeWhile isDigit r'
             in if es = [] then None
                else Some (if neg then - int_of_digits es else int_of_digits es,
                           dropWhile isDigit r'))
          else None)"

definition scan_decimal :: "string \<Rightarrow> (rat \<times> string) option" where
  "scan_decimal s =
     (let ip = takeWhile isDigit s;
          r1 = dropWhile isDigit s;
          dot = (r1 \<noteq> [] \<and> hd r1 = CHR ''.'');
          fp = (if dot then takeWhile isDigit (tl r1) else []);
          r2 = (if dot then dropWhile isDigit (tl r1) else r1);
          m = of_int (int_of_digits (ip @ fp))
      in if ip = [] \<and> fp = [] then None
         else (case scan_exponent r2 of
                 None \<Rightarrow> Some (m * ipow 10 (- int (length fp)), r2)
               | Some (e, r3) \<Rightarrow> Some (m * ipow 10 (e - int (length fp)), r3)))"

text \<open>
  \<^verbatim>\<open>parseFloat\<close>: leading white space is skipped, then the longest prefix that is a
  signed decimal literal or a signed \<^verbatim>\<open>Infinity\<close> is converted; \<^verbatim>\<open>NaN\<close> if there is
  none.
\<close>

definition parseFloat :: "string \<Rightarrow> jsnum" where
  "parseFloat s =
     (let t = dropWhile isWhiteSpace s;
          neg = (t \<noteq> [] \<and> hd t = CHR ''-'');
          u = (if t \<noteq> [] \<and> (hd t = CHR ''-'' \<or> hd t = CHR ''+'') then tl t else t)
      in if take 8 u = ''Infinity'' then signed_inf neg
         else (case scan_decimal u of
                 None \<Rightarrow> NaN
               | Some (v, rest) \<Rightarrow>
                   if v = 0 then signed_zero neg else round64 (if neg then - v else v)))"

text \<open>
  \<^verbatim>\<open>parseInt\<close>, which \<^verbatim>\<open>parseReference\<close> applies to a non-empty run of decimal digits
  only: there it is the number nearest to the decimal value of the run (leading zeros
  allowed), \<^verbatim>\<open>Infinity\<close> when that value is too large. (For runs of more than 20
  significant digits the language allows an engine to drop the digits after the 20th
  before rounding; the model rounds the exact value.)
\<close>

definition parseInt_digits :: "string \<Rightarrow> jsnum" where
  "parseInt_digits s = round64 (of_int (int_of_digits s))"

subsection \<open>Values, effects and running program text\<close>

text \<open>
  The values of the language: numbers, strings, booleans, \<^verbatim>\<open>undefined\<close>, \<^verbatim>\<open>null\<close>,
  and any other value (an object, a function, a symbol, a big integer). An other value is
  known by a name only, chosen such that two of them are strictly equal exactly when their
  names are; what its methods do is up to the runtime.
\<close>

datatype jsval = VNum jsnum | VStr string | VBool bool | VUndefined | VNull | VOther nat

text \<open>
  Strict equality \<^verbatim>\<open>===\<close>: values of different types are never equal.
\<close>

fun strict_eq :: "jsval \<Rightarrow> jsval \<Rightarrow> bool" where
  "strict_eq (VNum a) (VNum b) = js_strict_eq_num a b"
| "strict_eq (VStr a) (VStr b) = (a = b)"
| "strict_eq (VBool a) (VBool b) = (a = b)"
| "strict_eq VUndefined VUndefined = True"
| "strict_eq VNull VNull = True"
| "strict_eq (VOther a) (VOther b) = (a = b)"
| "strict_eq _ _ = False"

text \<open>
  A piece of JavaScript that runs in a world \<open>'w\<close> (everything a program can read and
  write outside the component: the global objects, the clock, the random generator, the
  heap of the other values) either does not return (\<open>None\<close>), or ends in a new world by
  returning a value or by throwing.
\<close>

datatype 'a completion = Returns 'a | Throws

type_synonym ('w, 'a) js = "'w \<Rightarrow> ('a completion \<times> 'w) option"

definition js_return :: "'a \<Rightarrow> ('w, 'a) js" where
  "js_return a w = Some (Returns a, w)"

definition js_throw :: "('w, 'a) js" where
  "js_throw w = Some (Throws, w)"

text \<open>One computation after another; an exception of the first skips the second.\<close>

definition js_bind :: "('w, 'a) js \<Rightarrow> ('a \<Rightarrow> ('w, 'b) js) \<Rightarrow> ('w, 'b) js" where
  "js_bind m k w =
     (case m w of
        None \<Rightarrow> None
      | Some (Throws, w') \<Rightarrow> Some (Throws, w')
      | Some (Returns a, w') \<Rightarrow> k a w')"

text \<open>\<^verbatim>\<open>try { m } catch { return a }\<close>.\<close>

definition js_catch :: "('w, 'a) js \<Rightarrow> 'a \<Rightarrow> ('w, 'a) js" where
  "js_catch m a w =
     (case m w of
        None \<Rightarrow> None
      | Some (Throws, w') \<Rightarrow> Some (Returns a, w')
      | Some (Returns b, w') \<Rightarrow> Some (Returns b, w'))"

text \<open>
  The runtime is the parameter of the model: what \<^verbatim>\<open>Function(body)()\<close> does for a
  program text, what the method call \<^verbatim>\<open>v.toString()\<close> does for an other value \<open>v\<close>,
  and what the conversion of an other value to a string does (the abstract operation
  \<^verbatim>\<open>ToString\<close>, which runs the value's own conversion methods). Each of them may read
  and change the world, throw, or not return.
\<close>

record 'w runtime =
  call_Function :: "string \<Rightarrow> ('w, jsval) js"
  call_toString :: "nat \<Rightarrow> ('w, jsval) js"
  convert_to_string :: "nat \<Rightarrow> ('w, string) js"

text \<open>
  The method call \<^verbatim>\<open>v.toString()\<close>: a \<^verbatim>\<open>TypeError\<close> for \<^verbatim>\<open>undefined\<close> and
  \<^verbatim>\<open>null\<close>, the built-in conversions for numbers, strings and booleans, and the
  runtime's answer for the other values, which need not be a string.
\<close>

fun method_toString :: "'w runtime \<Rightarrow> jsval \<Rightarrow> ('w, jsval) js" where
  "method_toString rt (VNum n) = js_return (VStr (number_toString n))"
| "method_toString rt (VStr s) = js_return (VStr s)"
| "method_toString rt (VBool b) = js_return (VStr (if b then ''true'' else ''false''))"
| "method_toString rt VUndefined = js_throw"
| "method_toString rt VNull = js_throw"
| "method_toString rt (VOther i) = call_toString rt i"

text \<open>
  The conversion \<^verbatim>\<open>ToString\<close>, which \<^verbatim>\<open>String.prototype.replace\<close> applies to what its
  callback returns.
\<close>

fun to_string :: "'w runtime \<Rightarrow> jsval \<Rightarrow> ('w, string) js" where
  "to_string rt (VNum n) = js_return (number_toString n)"
| "to_string rt (VStr s) = js_return s"
| "to_string rt (VBool b) = js_return (if b then ''true'' else ''false'')"
| "to_string rt VUndefined = js_return ''undefined''"
| "to_string rt VNull = js_return ''null''"
| "to_string rt (VOther i) = convert_to_string rt i"

subsection \<open>The arithmetic fragment of JavaScript\<close>

text \<open>
  For closed computations, what the language does on its arithmetic fragment: the body
  \<^verbatim>\<open>"use strict"; return \<close> followed by an expression made of decimal literals, the
  names \<^verbatim>\<open>Infinity\<close> and \<^verbatim>\<open>NaN\<close>, the operators \<^verbatim>\<open>+ - * /\<close> (binary, and \<^verbatim>\<open>+ -\<close>
  as prefixes), parentheses, blanks and tabs. \<open>js_arith\<close> answers \<open>None\<close> for text
  outside the fragment (other names, strings, comments, \<^verbatim>\<open>**\<close>, \<^verbatim>\<open>%\<close>, regular
  expression literals, hexadecimal literals, line breaks and so on).

  The tokens: a token \<open>TBad\<close> stands for text with which no expression of the fragment
  evaluates without an exception: \<^verbatim>\<open>++\<close> and \<^verbatim>\<open>--\<close> (no operand of the fragment can
  be assigned to), a private name such as \<^verbatim>\<open>#ERROR\<close>, a literal with a leading zero
  (refused in strict mode), a literal directly followed by a letter.
\<close>

datatype token = TNum jsnum | TPlus | TMinus | TStar | TSlash | TLParen | TRParen | TBad

text \<open>Scanning a literal consumes at least one character: the lexer terminates.\<close>

lemma scan_exponent_length: "scan_exponent s = Some (e, r) \<Longrightarrow> length r < length s"
  by (auto simp: scan_exponent_def Let_def split: list.splits if_splits
      intro: le_less_trans [OF length_dropWhile_le] le_imp_less_Suc
        order_trans [OF length_dropWhile_le])

lemma length_dropWhile_less:
  "takeWhile P xs \<noteq> [] \<Longrightarrow> length (dropWhile P xs) < length xs"
  by (induction xs) (auto simp: le_imp_less_Suc length_dropWhile_le split: if_splits)

lemma scan_decimal_length:
  assumes "scan_decimal s = Some (v, r)"
  shows "length r < length s"
proof -
  define ip where "ip = takeWhile isDigit s"
  define r1 where "r1 = dropWhile isDigit s"
  define dot where "dot = (r1 \<noteq> [] \<and> hd r1 = CHR ''.'')"
  define fp where "fp = (if dot then takeWhile isDigit (tl r1) else [])"
  define r2 where "r2 = (if dot then dropWhile isDigit (tl r1) else r1)"
  have nonempty: "ip \<noteq> [] \<or> fp \<noteq> []"
    using assms unfolding scan_decimal_def ip_def r1_def dot_def fp_def
    by (auto simp: Let_def split: if_splits)
  have r1_le: "length r1 \<le> length s"
    unfolding r1_def by (rule length_dropWhile_le)
  have r2_less: "length r2 < length s"
  proof (cases dot)
    case True
    then have "length (tl r1) < length r1" by (simp add: dot_def)
    moreover have "length r2 \<le> length (tl r1)"
      unfolding r2_def using True length_dropWhile_le [of isDigit "tl r1"] by simp
    ultimately show ?thesis using r1_le by linarith
  next
    case False
    then have "ip \<noteq> []" using nonempty by (simp add: fp_def)
    then show ?thesis
      using False unfolding r2_def r1_def ip_def by (simp add: length_dropWhile_less)
  qed
  have "r = r2 \<or> (\<exists>e. scan_exponent r2 = Some (e, r))"
    using assms unfolding scan_decimal_def ip_def r1_def dot_def fp_def r2_def
    by (auto simp: Let_def split: if_splits option.splits)
  then show ?thesis
    using r2_less scan_exponent_length by (auto intro: less_trans)
qed

function lex :: "string \<Rightarrow> token list option" where
  "lex [] = Some []"
| "lex (c # s) =
     (if c = CHR '' '' \<or> c = CHR 0x09 then lex s
      else if isDigit c \<or> (c = CHR ''.'' \<and> s \<noteq> [] \<and> isDigit (hd s)) then
        (case scan_decimal (c # s) of
           None \<Rightarrow> None
         | Some (v, rest) \<Rightarrow>
             if rest \<noteq> [] \<and> isIdentChar (hd rest) then
               (if hd rest \<in> set ''n_xXoObB'' then None
                else map_option ((#) TBad) (lex (dropWhile isIdentChar rest)))
             else if c = CHR ''0'' \<and> s \<noteq> [] \<and> isDigit (hd s) then
               map_option ((#) TBad) (lex rest)
             else map_option ((#) (TNum (round64 v))) (lex rest))
      else if isIdentChar c then
        (let w = takeWhile isIdentChar (c # s); rest = dropWhile isIdentChar s
         in if w = ''Infinity'' then map_option ((#) (TNum PosInf)) (lex rest)
            else if w = ''NaN'' then map_option ((#) (TNum NaN)) (lex rest)
            else None)
      else if c = CHR ''#'' then map_option ((#) TBad) (lex (dropWhile isIdentChar s))
      else if c = CHR ''+'' then
        (if s \<noteq> [] \<and> hd s = CHR ''+'' then map_option ((#) TBad) (lex (tl s))
         else map_option ((#) TPlus) (lex s))
      else if c = CHR ''-'' then
        (if s \<noteq> [] \<and> hd s = CHR ''-'' then map_option ((#) TBad) (lex (tl s))
         else map_option ((#) TMinus) (lex s))
      else if c = CHR ''*'' then
        (if s \<noteq> [] \<and> hd s = CHR ''*'' then None else map_option ((#) TStar) (lex s))
      else if c = CHR ''/'' then
        (if s \<noteq> [] \<and> (hd s = CHR ''/'' \<or> hd s = CHR ''*'') then None
         else map_option ((#) TSlash) (lex s))
      else if c = CHR ''('' then map_option ((#) TLParen) (lex s)
      else if c = CHR '')'' then map_option ((#) TRParen) (lex s)
      else None)"
  by pat_completeness auto
termination
proof (relation "measure length")
  fix c s x2 v rest
  assume "scan_decimal (c # s) = Some x2" "(v, rest) = x2"
  then have less: "length rest < length (c # s)"
    using scan_decimal_length [of "c # s" v rest] by simp
  then show "(rest, c # s) \<in> measure length" by simp
  show "(rest, c # s) \<in> measure length" using less by simp
  show "(dropWhile isIdentChar rest, c # s) \<in> measure length"
    using le_less_trans [OF length_dropWhile_le less] by simp
qed (auto simp: le_imp_less_Suc length_dropWhile_le)

text \<open>
  The expression is evaluated with two stacks, pending operators and values, as the
  tokens are read; \<open>operand\<close> tells whether an operand or an operator is due. Prefix
  operators bind tightest, then \<^verbatim>\<open>* /\<close>, then \<^verbatim>\<open>+ -\<close>, all binary ones to the left.
  Whatever is no expression of the fragment throws: a \<^verbatim>\<open>SyntaxError\<close> when the text
  is compiled, or the \<^verbatim>\<open>TypeError\<close> of calling a number such as \<^verbatim>\<open>(1)(2)\<close>. The one
  exception is a slash where an operand is due, which starts a regular expression literal:
  outside the fragment.
\<close>

datatype stack_op = OAdd | OSub | OMul | ODiv | ONeg | OPos | OParen

fun prec :: "stack_op \<Rightarrow> nat" where
  "prec OParen = 0"
| "prec OAdd = 1"
| "prec OSub = 1"
| "prec OMul = 2"
| "prec ODiv = 2"
| "prec ONeg = 3"
| "prec OPos = 3"

fun apply_op :: "stack_op \<Rightarrow> jsnum list \<Rightarrow> jsnum list option" where
  "apply_op OAdd (b # a # vs) = Some (js_add a b # vs)"
| "apply_op OSub (b # a # vs) = Some (js_sub a b # vs)"
| "apply_op OMul (b # a # vs) = Some (js_mul a b # vs)"
| "apply_op ODiv (b # a # vs) = Some (js_div a b # vs)"
| "apply_op ONeg (a # vs) = Some (js_neg a # vs)"
| "apply_op OPos (a # vs) = Some (a # vs)"
| "apply_op _ _ = None"

text \<open>Apply the pending operators of precedence \<open>p\<close> or more, down to an open parenthesis.\<close>

fun reduce :: "nat \<Rightarrow> stack_op list \<Rightarrow> jsnum list \<Rightarrow> (stack_op list \<times> jsnum list) option" where
  "reduce p [] vs = Some ([], vs)"
| "reduce p (f # fs) vs =
     (if f \<noteq> OParen \<and> p \<le> prec f then
        (case apply_op f vs of None \<Rightarrow> None | Some vs' \<Rightarrow> reduce p fs vs')
      else Some (f # fs, vs))"

fun binary_op :: "token \<Rightarrow> stack_op option" where
  "binary_op TPlus = Some OAdd"
| "binary_op TMinus = Some OSub"
| "binary_op TStar = Some OMul"
| "binary_op TSlash = Some ODiv"
| "binary_op _ = None"

fun run_tokens ::
  "token list \<Rightarrow> bool \<Rightarrow> stack_op list \<Rightarrow> jsnum list \<Rightarrow> jsval completion option" where
  "run_tokens [] operand fs vs =
     (if operand then Some Throws
      else (case reduce 1 fs vs of
              Some ([], [v]) \<Rightarrow> Some (Returns (VNum v))
            | _ \<Rightarrow> Some Throws))"
| "run_tokens (t # ts) operand fs vs =
     (if operand then
        (case t of
           TNum n \<Rightarrow> run_tokens ts False fs (n # vs)
         | TMinus \<Rightarrow> run_tokens ts True (ONeg # fs) vs
         | TPlus \<Rightarrow> run_tokens ts True (OPos # fs) vs
         | TLParen \<Rightarrow> run_tokens ts True (OParen # fs) vs
         | TSlash \<Rightarrow> None
         | _ \<Rightarrow> Some Throws)
      else if t = TRParen then
        (case reduce 1 fs vs of
           Some (OParen # fs', vs') \<Rightarrow> run_tokens ts False fs' vs'
         | _ \<Rightarrow> Some Throws)
      else
        (case binary_op t of
           None \<Rightarrow> Some Throws
         | Some f \<Rightarrow>
             (case reduce (prec f) fs vs of
                None \<Rightarrow> Some Throws
              | Some (fs', vs') \<Rightarrow> run_tokens ts True (f # fs') vs')))"

definition use_strict_return :: string where
  "use_strict_return = CHR 0x22 # ''use strict'' @ CHR 0x22 # ''; return ''"

definition js_arith :: "string \<Rightarrow> jsval completion option" where
  "js_arith body =
     (if take (length use_strict_return) body = use_strict_return then
        (case lex (drop (length use_strict_return) body) of
           None \<Rightarrow> None
         | Some ts \<Rightarrow> run_tokens ts True [] [])
      else None)"

text \<open>
  As a runtime, \<open>js_arith\<close> needs no world; it is made total by throwing outside the
  fragment. That is an arbitrary choice there (JavaScript runs such text), so statements
  about \<open>arith_runtime\<close> speak for the program on formulas inside the fragment;
  statements for every runtime \<open>rt\<close> speak for all of them. No other value arises in
  the fragment.
\<close>

definition arith_runtime :: "unit runtime" where
  "arith_runtime =
     \<lparr>call_Function = (\<lambda>body w. Some (case js_arith body of Some r \<Rightarrow> r | None \<Rightarrow> Throws, w)),
      call_toString = (\<lambda>i. js_throw),
      convert_to_string = (\<lambda>i. js_throw)\<rparr>"

section \<open>The component\<close>

subsection \<open>Reference codec\<close>

record CellPosition =
  row :: jsnum
  col :: jsnum

text \<open>
  \<^verbatim>\<open>getColumnLabel\<close>: the loop \<^verbatim>\<open>while (col >= 0)\<close> prepends the letter of
  \<^verbatim>\<open>col % 26\<close> and continues with \<^verbatim>\<open>Math.floor(col / 26) - 1\<close>. The argument is
  any number; for \<^verbatim>\<open>Infinity\<close> the loop does not end, so the result is optional.
\<close>

partial_function (option) getColumnLabel_loop :: "jsnum \<Rightarrow> string \<Rightarrow> string option" where
  "getColumnLabel_loop c label =
     (if js_le (Fin 0) c
      then getColumnLabel_loop (js_sub (js_floor (js_div c (Fin 26))) (Fin 1))
             (fromCharCode (js_add (Fin 65) (js_mod c (Fin 26))) # label)
      else Some label)"

definition getColumnLabel :: "jsnum \<Rightarrow> string option" where
  "getColumnLabel c = getColumnLabel_loop c []"

text \<open>
  \<^verbatim>\<open>ref.match(/^([A-Z]+)(\d+)$/)\<close>: the first group is greedy and takes the whole
  leading run of capitals; the rest of the text, up to its end, must be a non-empty run of
  digits. No shorter first group can lead to a match, since the character after it would
  be a capital. The result is the pair of the two groups, or \<open>None\<close> for \<^verbatim>\<open>null\<close>.
\<close>

definition match_reference :: "string \<Rightarrow> (string \<times> string) option" where
  "match_reference ref =
     (let colStr = takeWhile isUpper ref; rowStr = dropWhile isUpper ref
      in if colStr \<noteq> [] \<and> rowStr \<noteq> [] \<and> list_all isDigit rowStr
         then Some (colStr, rowStr) else None)"

text \<open>
  The column loop \<^verbatim>\<open>col = col * 26 + (colStr.charCodeAt(i) - 64)\<close>, on numbers: each
  product and each sum is rounded.
\<close>

definition column_step :: "jsnum \<Rightarrow> char \<Rightarrow> jsnum" where
  "column_step c ch = js_add (js_mul c (Fin 26)) (js_sub (Fin (of_int (of_char ch))) (Fin 64))"

definition parseReference :: "string \<Rightarrow> CellPosition option" where
  "parseReference ref =
     (case match_reference ref of
        None \<Rightarrow> None
      | Some (colStr, rowStr) \<Rightarrow>
          Some \<lparr>row = js_sub (parseInt_digits rowStr) (Fin 1),
                col = js_sub (foldl column_step (Fin 0) colStr) (Fin 1)\<rparr>)"

text \<open>
  The pattern \<^verbatim>\<open>[A-Z]+[0-9]+\<close> as the specification words it: a non-empty run of
  capitals followed by a non-empty run of digits, and nothing else.
\<close>

definition is_reference_pattern :: "string \<Rightarrow> bool" where
  "is_reference_pattern s =
     (\<exists>ls ds. s = ls @ ds \<and> ls \<noteq> [] \<and> ds \<noteq> [] \<and>
        (\<forall>c \<in> set ls. isUpper c) \<and> (\<forall>c \<in> set ds. isDigit c))"

text \<open>
  The label of a column index as the specification words it: the bijective base-26
  numeral of the index, on mathematical integers.
\<close>

function base26_label :: "int \<Rightarrow> string \<Rightarrow> string" where
  "base26_label c label =
     (if c \<ge> 0 then base26_label (c div 26 - 1) (char_of (65 + c mod 26) # label)
      else label)"
  by pat_completeness auto
termination
  by (relation "measure (\<lambda>(c, label). nat (c + 1))") auto

declare base26_label.simps [simp del]

subsection \<open>Cell store\<close>

text \<open>
  \<^verbatim>\<open>interface CellData { value: string; formula?: string; computed?: number | string }\<close>.
  The field \<^verbatim>\<open>formula\<close> holds a string or \<^verbatim>\<open>undefined\<close> (\<open>None\<close>). The field
  \<^verbatim>\<open>computed\<close> holds whatever \<^verbatim>\<open>evaluateFormula\<close> returned, which at run time is
  not bound to the declared type, or \<^verbatim>\<open>undefined\<close>. The field \<^verbatim>\<open>value\<close> is written
  \<open>value'\<close>.
\<close>

record CellData =
  value' :: string
  formula :: "string option"
  computed :: jsval

text \<open>
  The store is a \<^verbatim>\<open>Map<string, CellData>\<close>: keys in the order of their first
  insertion, which is the order \<^verbatim>\<open>forEach\<close> visits them. \<^verbatim>\<open>Map.get\<close> is
  \<^const>\<open>map_of\<close>, \<^verbatim>\<open>Map.set\<close> is \<^const>\<open>AList.update\<close> (in place for a key that is
  present, at the end for a new one) and \<^verbatim>\<open>Map.delete\<close> is \<^const>\<open>AList.delete\<close>.
\<close>

type_synonym cells = "(string \<times> CellData) list"

text \<open>The key \<^verbatim>\<open>`${row}-${col}`\<close>.\<close>

definition cell_key :: "jsnum \<Rightarrow> jsnum \<Rightarrow> string" where
  "cell_key r c = number_toString r @ ''-'' @ number_toString c"

text \<open>\<^verbatim>\<open>getCellData\<close>: \<^verbatim>\<open>cells.get(key) || null\<close>, with \<open>None\<close> for \<^verbatim>\<open>null\<close>.\<close>

definition getCellData :: "cells \<Rightarrow> jsnum \<Rightarrow> jsnum \<Rightarrow> CellData option" where
  "getCellData cells r c = map_of cells (cell_key r c)"

subsection \<open>Formula evaluator\<close>

text \<open>
  \<^verbatim>\<open>expression.replace(/[A-Z]+\d+/g, callback)\<close>: the text is scanned from the left;
  where a run of capitals is followed by a digit, the run and all the digits after it are
  one match, replaced by what the callback returns, and the scan goes on behind it;
  elsewhere the character is kept. (At a capital whose run is not followed by a digit no
  match starts, nor at the later capitals of that run.) The callback is called for one
  match after the other; when it throws, so does \<^verbatim>\<open>replace\<close>.
\<close>

function replace_references ::
  "(string \<Rightarrow> ('w, string) js) \<Rightarrow> string \<Rightarrow> ('w, string) js" where
  "replace_references f [] = js_return []"
| "replace_references f (c # s) =
     (let letters = takeWhile isUpper (c # s);
          rest = dropWhile isUpper (c # s);
          digits = takeWhile isDigit rest
      in if letters \<noteq> [] \<and> digits \<noteq> []
         then js_bind (f (letters @ digits)) (\<lambda>replacement.
              js_bind (replace_references f (dropWhile isDigit rest)) (\<lambda>tail.
              js_return (replacement @ tail)))
         else js_bind (replace_references f s) (\<lambda>tail. js_return (c # tail)))"
  by pat_completeness auto
termination
proof (relation "measure (\<lambda>(f, s). length s)")
  fix f :: "string \<Rightarrow> ('w, string) js" and c s letters rest digits
  assume "letters = takeWhile isUpper (c # s)" "rest = dropWhile isUpper (c # s)"
    "digits = takeWhile isDigit rest" "letters \<noteq> [] \<and> digits \<noteq> []"
  then have "rest = dropWhile isUpper s"
    by (auto split: if_splits)
  then have "length (dropWhile isDigit rest) \<le> length s"
    using order_trans [OF length_dropWhile_le length_dropWhile_le] by simp
  then show "((f, dropWhile isDigit rest), (f, c # s)) \<in> measure (\<lambda>(f, s). length s)"
    by simp
qed simp_all

text \<open>
  The callback: the text that stands for a reference. A reference to a cell that is
  not in the store is \<^verbatim>\<open>0\<close>; one to a cell whose cached value is not \<^verbatim>\<open>undefined\<close>
  is \<^verbatim>\<open>cell.computed.toString()\<close>, which \<^verbatim>\<open>replace\<close> converts to a string; one to
  a cell without cached value is the text of the number at the front of its raw text, or
  \<^verbatim>\<open>0\<close> if there is none.
\<close>

definition reference_text :: "'w runtime \<Rightarrow> cells \<Rightarrow> string \<Rightarrow> ('w, string) js" where
  "reference_text rt cells m =
     (case parseReference m of
        None \<Rightarrow> js_return ''0''
      | Some pos \<Rightarrow>
          (case map_of cells (cell_key (row pos) (col pos)) of
             None \<Rightarrow> js_return ''0''
           | Some cell \<Rightarrow>
               if computed cell \<noteq> VUndefined
               then js_bind (method_toString rt (computed cell)) (to_string rt)
               else (let numValue = parseFloat (value' cell)
                     in js_return (if numValue = NaN then ''0''
                                   else number_toString numValue))))"

text \<open>The program text \<^verbatim>\<open>`"use strict"; return (${processedExpression})`\<close>.\<close>

definition function_body :: "string \<Rightarrow> string" where
  "function_body processedExpression = use_strict_return @ ''('' @ processedExpression @ '')''"

text \<open>
  The \<^verbatim>\<open>try\<close> block of \<^verbatim>\<open>evaluateFormula\<close>: the references are replaced, the
  program text is run, and a result that is no number is replaced by what its
  \<^verbatim>\<open>toString()\<close> returns.
\<close>

definition evaluateFormula_try :: "'w runtime \<Rightarrow> string \<Rightarrow> cells \<Rightarrow> ('w, jsval) js" where
  "evaluateFormula_try rt formulaText cells =
     js_bind (replace_references (reference_text rt cells) (drop 1 formulaText))
       (\<lambda>processedExpression.
     js_bind (call_Function rt (function_body processedExpression))
       (\<lambda>result.
     (case result of
        VNum n \<Rightarrow> js_return (VNum n)
      | _ \<Rightarrow> method_toString rt result)))"

text \<open>\<^verbatim>\<open>evaluateFormula\<close>: the \<^verbatim>\<open>try\<close> block, with \<^verbatim>\<open>catch { return "#ERROR" }\<close>.\<close>

definition evaluateFormula :: "'w runtime \<Rightarrow> string \<Rightarrow> cells \<Rightarrow> ('w, jsval) js" where
  "evaluateFormula rt formulaText cells =
     js_catch (evaluateFormula_try rt formulaText cells) (VStr ''#ERROR'')"

subsection \<open>Cell update and recalculation\<close>

text \<open>
  One pass of the loop, \<^verbatim>\<open>newCells.forEach\<close>: the entries are visited in order;
  \<open>visited\<close> are the entries visited so far (with their new values), and each formula is
  evaluated against the whole store as it stands then. The test \<^verbatim>\<open>if (cell.formula)\<close>
  holds for a formula text that is present and not empty; the test
  \<^verbatim>\<open>computed !== prevComputed\<close> is the negation of \<open>strict_eq\<close>.
\<close>

fun recalculate_pass ::
  "'w runtime \<Rightarrow> cells \<Rightarrow> cells \<Rightarrow> bool \<Rightarrow> ('w, cells \<times> bool) js" where
  "recalculate_pass rt visited [] changed = js_return (visited, changed)"
| "recalculate_pass rt visited ((key, cell) # rest) changed =
     (case formula cell of
        None \<Rightarrow> recalculate_pass rt (visited @ [(key, cell)]) rest changed
      | Some f \<Rightarrow>
          if f = [] then recalculate_pass rt (visited @ [(key, cell)]) rest changed
          else
            (let prevComputed = computed cell
             in js_bind (evaluateFormula rt f (visited @ (key, cell) # rest)) (\<lambda>new.
                  if \<not> strict_eq new prevComputed
                  then recalculate_pass rt (visited @ [(key, cell\<lparr>computed := new\<rparr>)]) rest True
                  else recalculate_pass rt (visited @ [(key, cell)]) rest changed)))"

text \<open>
  The loop \<^verbatim>\<open>while (changed)\<close>: passes are repeated until one changes nothing. The
  source sets no bound on their number, so the loop need not end: \<open>None\<close> stands for a
  call that does not return.
\<close>

partial_function (option) recalculate ::
  "'w runtime \<Rightarrow> cells \<Rightarrow> 'w \<Rightarrow> (cells completion \<times> 'w) option" where
  "recalculate rt cells w =
     (case recalculate_pass rt [] cells False w of
        None \<Rightarrow> None
      | Some (Throws, w') \<Rightarrow> Some (Throws, w')
      | Some (Returns (cells', changed), w') \<Rightarrow>
          if changed then recalculate rt cells' w' else Some (Returns cells', w'))"

text \<open>
  The first half of \<^verbatim>\<open>updateCell\<close>: the copy of the store with the entry deleted (for
  the empty text) or set; a formula is evaluated once, against the copy before the entry
  is set.
\<close>

definition write_cell :: "'w runtime \<Rightarrow> cells \<Rightarrow> jsnum \<Rightarrow> jsnum \<Rightarrow> string \<Rightarrow> ('w, cells) js" where
  "write_cell rt prev r c v =
     (let key = cell_key r c
      in if v = [] then js_return (AList.delete key prev)
         else
           (let isFormula = (take 1 v = ''='')
            in js_bind (if isFormula then evaluateFormula rt v prev else js_return VUndefined)
                 (\<lambda>computedValue.
                    js_return (AList.update key
                      \<lparr>value' = v, formula = (if isFormula then Some v else None),
                       computed = computedValue\<rparr> prev))))"

text \<open>
  \<^verbatim>\<open>updateCell\<close>: the state update of one edit, which is the write followed by the
  loop. Its result is the new store, unless the update throws or does not return. (The
  new \<^verbatim>\<open>Map\<close> is a shallow copy: the loop writes the cached values into records that
  the previous store shares. The model describes the store that is returned.)
\<close>

definition updateCell :: "'w runtime \<Rightarrow> cells \<Rightarrow> jsnum \<Rightarrow> jsnum \<Rightarrow> string \<Rightarrow> ('w, cells) js" where
  "updateCell rt prev r c v = js_bind (write_cell rt prev r c v) (recalculate rt)"

subsection \<open>Counting the passes of the loop\<close>


subsection \<open>The invariant of the stored records and the reachable stores\<close>








subsection \<open>A runtime with objects\<close>





subsection \<open>The sheets of the examples\<close>

text \<open>\<^verbatim>\<open>A1 = "5"\<close>; then \<^verbatim>\<open>B1 = "=A1*2"\<close>; then \<^verbatim>\<open>A1 = "7"\<close>.\<close>

definition sheet_A5 :: cells where
  "sheet_A5 = [(''0-0'', \<lparr>value' = ''5'', formula = None, computed = VUndefined\<rparr>)]"

definition sheet_A5_B10 :: cells where
  "sheet_A5_B10 =
     [(''0-0'', \<lparr>value' = ''5'', formula = None, computed = VUndefined\<rparr>),
      (''0-1'', \<lparr>value' = ''=A1*2'', formula = Some ''=A1*2'',
                computed = VNum (Fin 10)\<rparr>)]"

definition sheet_A7_B10 :: cells where
  "sheet_A7_B10 =
     [(''0-0'', \<lparr>value' = ''7'', formula = None, computed = VUndefined\<rparr>),
      (''0-1'', \<lparr>value' = ''=A1*2'', formula = Some ''=A1*2'',
                computed = VNum (Fin 10)\<rparr>)]"

definition sheet_A7_B14 :: cells where
  "sheet_A7_B14 =
     [(''0-0'', \<lparr>value' = ''7'', formula = None, computed = VUndefined\<rparr>),
      (''0-1'', \<lparr>value' = ''=A1*2'', formula = Some ''=A1*2'',
                computed = VNum (Fin 14)\<rparr>)]"









text \<open>
  A record whose cached value is \<^verbatim>\<open>null\<close>, as a formula such as
  \<^verbatim>\<open>=({toString:()=>null})\<close> leaves it.
\<close>

definition sheet_null :: cells where
  "sheet_null =
     [(''0-0'', \<lparr>value' = ''=({toString:()=>null})'',
                formula = Some ''=({toString:()=>null})'', computed = VNull\<rparr>)]"


subsection \<open>Viewport window\<close>

record VisibleRange =
  rowLength :: int
  startRow :: int
  endRow :: int
  startCol :: int
  endCol :: int

text \<open>
  \<^verbatim>\<open>visibleRange\<close>, as a function of the four numbers it reads. Scroll offsets and
  window sizes are finite numbers, not necessarily whole; \<^verbatim>\<open>Math.floor\<close> is
  \<^const>\<open>floor\<close>.
\<close>

definition visibleRange :: "rat \<Rightarrow> rat \<Rightarrow> rat \<Rightarrow> rat \<Rightarrow> VisibleRange" where
  "visibleRange scrollTop scrollLeft height width =
     (let startRow = \<lfloor>scrollTop / of_int CELL_HEIGHT\<rfloor>;
          endRow = min (startRow + \<lfloor>height / of_int CELL_HEIGHT\<rfloor> + 2) TOTAL_ROWS;
          startCol = \<lfloor>scrollLeft / of_int CELL_WIDTH\<rfloor>;
          endCol = min (startCol + \<lfloor>width / of_int CELL_WIDTH\<rfloor> + 2) TOTAL_COLS;
          rowLength = endRow - startRow
      in \<lparr>rowLength = rowLength, startRow = startRow, endRow = endRow,
           startCol = startCol, endCol = endCol\<rparr>)"

section \<open>Properties of the numbers\<close>

subsection \<open>Digits and exact rounding of integers\<close>

text \<open>The digit count brackets its argument between two powers of the base.\<close>

lemma count_digits_unfold:
  "0 < a \<Longrightarrow> 1 < b \<Longrightarrow> count_digits b a = count_digits b (a div b) + 1"
  by (subst count_digits.simps) simp

lemma count_digits_nonpos: "a \<le> 0 \<Longrightarrow> count_digits b a = 0"
  by (subst count_digits.simps) simp

lemma count_digits_bounds:
  "0 < a \<Longrightarrow> 1 < b \<Longrightarrow>
   1 \<le> count_digits b a \<and>
   b ^ nat (count_digits b a - 1) \<le> a \<and> a < b ^ nat (count_digits b a)"
proof (induction b a rule: count_digits.induct)
  case (1 b a)
  have split: "a = b * (a div b) + a mod b" by simp
  have m: "0 \<le> a mod b" "a mod b < b" using 1(3) by simp_all
  show ?case
  proof (cases "a div b = 0")
    case True
    then have "a < b" using split m by simp
    with True 1(2,3) show ?thesis
      by (simp add: count_digits_unfold count_digits_nonpos)
  next
    case False
    have "0 \<le> a div b" using 1(2,3) by (simp add: pos_imp_zdiv_nonneg_iff)
    with False have pos: "0 < a div b" by simp
    let ?c = "count_digits b (a div b)"
    from 1(1) pos 1(2,3)
    have IH: "1 \<le> ?c" "b ^ nat (?c - 1) \<le> a div b" "a div b < b ^ nat ?c" by simp_all
    have c: "count_digits b a = ?c + 1" using 1(2,3) by (rule count_digits_unfold)
    have n1: "nat (?c + 1 - 1) = Suc (nat (?c - 1))" using IH(1) by simp
    have n2: "nat (?c + 1) = Suc (nat ?c)" using IH(1) by simp
    have "b * b ^ nat (?c - 1) \<le> b * (a div b)"
      using IH(2) 1(3) by simp
    also have "\<dots> \<le> a" using mult_div_mod_eq [of b a] m by linarith
    finally have lower: "b ^ nat (count_digits b a - 1) \<le> a"
      unfolding c n1 by simp
    have "a div b + 1 \<le> b ^ nat ?c" using IH(3) by simp
    then have "b * (a div b + 1) \<le> b * b ^ nat ?c" using 1(3) by simp
    moreover have "b * (a div b + 1) = b * (a div b) + b" by (simp add: algebra_simps)
    then have "a < b * (a div b + 1)" using mult_div_mod_eq [of b a] m by linarith
    ultimately have upper: "a < b ^ nat (count_digits b a)"
      unfolding c n2 by simp
    from lower upper IH(1) c show ?thesis by simp
  qed
qed



text \<open>
  Whole numbers below \<open>2^53\<close>, and even ones below \<open>2^54\<close>, are binary64 values:
  rounding leaves them as they are.
\<close>

lemma round_half_even_of_int: "round_half_even (of_int z) = z"
  by (simp add: round_half_even_def)

lemma ipow_2_1024_gt: "m < 2 ^ 54 \<Longrightarrow> \<not> ipow 2 1024 \<le> (of_int m :: rat)"
proof -
  assume "m < 2 ^ 54"
  then have "(of_int m :: rat) < of_int (2 ^ 54)" by (simp only: of_int_less_iff)
  also have "(of_int (2 ^ 54) :: rat) \<le> 2 ^ 1024" by simp
  finally show ?thesis by (simp add: ipow_def)
qed

lemma round64_pos_int:
  assumes "0 < m" "m < 2 ^ 54" "m < 2 ^ 53 \<or> even m"
  shows "round64_pos (of_int m) = Some (of_int m)"
proof -
  let ?c = "count_digits 2 m"
  from count_digits_bounds [OF assms(1), of 2]
  have c: "1 \<le> ?c" "2 ^ nat (?c - 1) \<le> m" "m < 2 ^ nat ?c" by simp_all
  have il: "ilog 2 (of_int m) = ?c - 1"
    using assms(1) by (simp add: ilog_def)
  have "(2::int) ^ nat (?c - 1) < 2 ^ 54" using c(2) assms(2) by linarith
  then have "nat (?c - 1) < 54" by (rule power_less_imp_less_exp [rotated]) simp
  then have e53: "?c - 1 \<le> 53" by linarith
  have r: "of_int (round_half_even (of_int m / ipow 2 (?c - 1 - 52))) * ipow 2 (?c - 1 - 52)
      = (of_int m :: rat)"
  proof (cases "?c - 1 \<le> 52")
    case True
    let ?k = "nat (52 - (?c - 1))"
    have u: "ipow 2 (?c - 1 - 52) = 1 / 2 ^ ?k"
      using True by (cases "?c - 1 = 52") (simp_all add: ipow_def)
    have "(of_int m :: rat) / (1 / 2 ^ ?k) = of_int (m * 2 ^ ?k)" by simp
    then show ?thesis
      unfolding u by (simp only: round_half_even_of_int) simp
  next
    case False
    with e53 have e: "?c - 1 = 53" by linarith
    then have "2 ^ 53 \<le> m" using c(2) by simp
    with assms(3) have "even m" by linarith
    then obtain h where h: "m = 2 * h" by (elim evenE)
    have "?c - 1 - 52 = 1" using e by linarith
    then have u: "ipow 2 (?c - 1 - 52) = 2" by (simp add: ipow_def)
    have "(of_int m :: rat) / 2 = of_int h" by (simp add: h)
    then show ?thesis
      unfolding u by (simp only: round_half_even_of_int)
  qed
  have mx: "max (ilog 2 (of_int m)) (- 1022) = ?c - 1"
    using il c(1) by simp
  show ?thesis
    unfolding round64_pos_def Let_def mx r
    using ipow_2_1024_gt [OF assms(2)] by simp
qed

lemma round64_int:
  assumes "0 < m" "m < 2 ^ 54" "m < 2 ^ 53 \<or> even m"
  shows "round64 (of_int m) = Fin (of_int m)"
  using assms(1) round64_pos_int [OF assms] by (simp add: round64_def)






















subsection \<open>Rounding\<close>


lemma count_digits_nonneg: "0 \<le> count_digits b a"
proof (cases "0 < a \<and> 1 < b")
  case True
  then show ?thesis using count_digits_bounds [of a b] by simp
next
  case False
  then have "count_digits b a = 0" by (subst count_digits.simps) auto
  then show ?thesis by simp
qed

lemma round_half_even_ge_floor: "\<lfloor>x\<rfloor> \<le> round_half_even x"
  by (simp add: round_half_even_def Let_def)

lemma round_half_even_ge: "of_int n \<le> x \<Longrightarrow> n \<le> round_half_even x"
proof -
  assume "of_int n \<le> x"
  then have "n \<le> \<lfloor>x\<rfloor>" by (simp add: le_floor_iff)
  with round_half_even_ge_floor [of x] show ?thesis by linarith
qed


lemma round_half_even_le_half: "of_int (round_half_even x) \<le> x + 1 / 2"
proof -
  have f: "of_int \<lfloor>x\<rfloor> \<le> x" by simp
  consider "x - of_int \<lfloor>x\<rfloor> < 1 / 2" | "1 / 2 < x - of_int \<lfloor>x\<rfloor>"
    | "x - of_int \<lfloor>x\<rfloor> = 1 / 2" by linarith
  then show ?thesis
  proof cases
    case 1
    then have "round_half_even x = \<lfloor>x\<rfloor>" by (simp add: round_half_even_def Let_def)
    then have "(of_int (round_half_even x) :: rat) = of_int \<lfloor>x\<rfloor>" by simp
    with f show ?thesis by linarith
  next
    case 2
    then have "round_half_even x = \<lfloor>x\<rfloor> + 1" by (simp add: round_half_even_def Let_def)
    with 2 show ?thesis by simp
  next
    case 3
    then have "round_half_even x = \<lfloor>x\<rfloor> \<or> round_half_even x = \<lfloor>x\<rfloor> + 1"
      by (simp add: round_half_even_def Let_def)
    with 3 show ?thesis by auto
  qed
qed


lemma ilog2_le:
  assumes "0 < q" "q < 2 ^ k" "0 < k"
  shows "ilog 2 q \<le> int k - 1"
proof (cases "1 \<le> q")
  case True
  then have f: "1 \<le> \<lfloor>q\<rfloor>" by (simp add: le_floor_iff)
  then have pos: "0 < \<lfloor>q\<rfloor>" by simp
  from count_digits_bounds [OF pos, of 2]
  have c: "1 \<le> count_digits 2 \<lfloor>q\<rfloor>" "2 ^ nat (count_digits 2 \<lfloor>q\<rfloor> - 1) \<le> \<lfloor>q\<rfloor>" by simp_all
  have "q < of_int (2 ^ k)" using assms(2) by simp
  then have "\<lfloor>q\<rfloor> < 2 ^ k" by (simp only: floor_less_iff)
  with c(2) have "(2::int) ^ nat (count_digits 2 \<lfloor>q\<rfloor> - 1) < 2 ^ k" by linarith
  then have "nat (count_digits 2 \<lfloor>q\<rfloor> - 1) < k"
    by (rule power_less_imp_less_exp [rotated]) simp
  then show ?thesis using True c(1) by (simp add: ilog_def)
next
  case False
  have "0 \<le> count_digits 2 (\<lceil>1 / q\<rceil> - 1)" by (rule count_digits_nonneg)
  then show ?thesis using False assms(3) by (simp add: ilog_def)
qed


text \<open>
  Below \<open>2^53\<close> the spacing of the numbers is \<open>1 / U\<close> for a whole \<open>U\<close>, and rounding
  is rounding \<open>q * U\<close> to a whole number.
\<close>

lemma round64_pos_scaled:
  assumes q: "0 < q" and e: "e = max (ilog 2 q) (- 1022)" and e52: "e \<le> 52"
    and U: "U = 2 ^ nat (52 - e)"
  shows "round64_pos q =
     (if ipow 2 1024 \<le> of_int (round_half_even (q * U)) / U then None
      else Some (of_int (round_half_even (q * U)) / U))"
proof -
  have ulp: "ipow 2 (e - 52) = 1 / U"
  proof (cases "e = 52")
    case True
    then show ?thesis by (simp add: ipow_def U)
  next
    case False
    with e52 have "e - 52 < 0" "nat (- (e - 52)) = nat (52 - e)" by simp_all
    then show ?thesis by (simp add: ipow_def U)
  qed
  show ?thesis
    unfolding round64_pos_def Let_def e [symmetric] ulp by simp
qed

lemma round64_div26:
  assumes c: "1 \<le> c" "c \<le> 2 ^ 53"
  shows "\<exists>r. round64 (of_int c / 26) = Fin r \<and> \<lfloor>r\<rfloor> = c div 26"
proof -
  define q :: rat where "q = of_int c / 26"
  define n where "n = c div 26"
  define e where "e = max (ilog 2 q) (- 1022)"
  define k where "k = nat (52 - e)"
  define U :: rat where "U = 2 ^ k"
  define R where "R = round_half_even (q * U)"
  have q_pos: "0 < q" using c(1) by (simp add: q_def)
  have "(of_int c :: rat) \<le> of_int (2 ^ 53)" using c(2) by (simp only: of_int_le_iff)
  then have q49: "q < 2 ^ 49" by (simp add: q_def)
  have "ilog 2 q \<le> int 49 - 1" using q_pos q49 by (rule ilog2_le) simp
  then have e48: "e \<le> 48" by (simp add: e_def)
  then have k4: "4 \<le> k" by (simp add: k_def)
  have "(2::rat) ^ 4 \<le> 2 ^ k" using k4 by (intro power_increasing) simp_all
  then have U16: "16 \<le> U" by (simp add: U_def)
  then have U_pos: "0 < U" by simp
  have split: "c = 26 * n + c mod 26" by (simp add: n_def)
  have m: "0 \<le> c mod 26" "c mod 26 \<le> 25" by simp_all
  have "(of_int c :: rat) = 26 * of_int n + of_int (c mod 26)"
    using arg_cong [OF split, of "of_int :: int \<Rightarrow> rat"] by simp
  moreover have "(0::rat) \<le> of_int (c mod 26)" "(of_int (c mod 26) :: rat) \<le> 25"
    using m by simp_all
  ultimately have qn: "of_int n \<le> q" "q \<le> of_int n + 25 / 26"
    by (simp_all add: q_def)
  have n_nonneg: "0 \<le> n" using c(1) by (simp add: n_def pos_imp_zdiv_nonneg_iff)
  have lower: "of_int n * U \<le> q * U" using qn(1) U_pos by simp
  have "(of_int (n * 2 ^ k) :: rat) \<le> q * U" using lower by (simp add: U_def)
  then have Rge: "n * 2 ^ k \<le> R" unfolding R_def by (rule round_half_even_ge)
  have "of_int R \<le> q * U + 1 / 2" unfolding R_def by (rule round_half_even_le_half)
  also have "q * U \<le> (of_int n + 25 / 26) * U" using qn(2) U_pos by simp
  also have "(of_int n + 25 / 26) * U + 1 / 2 = (of_int n + 1) * U - (U / 26 - 1 / 2)"
    by (simp add: algebra_simps)
  also have "\<dots> < (of_int n + 1) * U" using U16 by simp
  finally have Rlt: "of_int R < (of_int n + 1) * U" by simp
  define r where "r = of_int R / U"
  have r_ge: "of_int n \<le> r"
  proof -
    have "(of_int (n * 2 ^ k) :: rat) \<le> of_int R" using Rge by (simp only: of_int_le_iff)
    then have "of_int n * U \<le> of_int R" by (simp add: U_def)
    then show ?thesis using U_pos by (simp add: r_def pos_le_divide_eq)
  qed
  have r_lt: "r < of_int n + 1"
    using Rlt U_pos by (simp add: r_def pos_divide_less_eq)
  have fl: "\<lfloor>r\<rfloor> = n" using r_ge r_lt by (simp add: floor_unique)
  have "(of_int n :: rat) \<le> q" by (rule qn(1))
  with q49 have "(of_int n :: rat) + 1 < 2 ^ 49 + 1" by simp
  with r_lt have "r < 2 ^ 49 + 1" by simp
  also have "(2::rat) ^ 49 + 1 \<le> 2 ^ 1024" by simp
  finally have no: "\<not> ipow 2 1024 \<le> r" by (simp add: ipow_def)
  have "round64_pos q = Some r"
    using round64_pos_scaled [OF q_pos e_def _ refl] e48 no
    by (simp add: r_def R_def U_def k_def)
  then have "round64 q = Fin r" using q_pos by (simp add: round64_def)
  with fl show ?thesis unfolding q_def n_def by blast
qed

subsection \<open>The operators on whole numbers\<close>

lemma round64_whole:
  assumes "\<bar>m\<bar> \<le> 2 ^ 53"
  shows "round64 (of_int m) = Fin (of_int m)"
proof -
  have ex: "round64_pos (of_int k) = Some (of_int k)" if "0 < k" "k \<le> 2 ^ 53" for k
  proof (rule round64_pos_int)
    show "0 < k" by (rule that)
    show "k < 2 ^ 54" using that by simp
    have "k < 2 ^ 53 \<or> k = 2 ^ 53" using that by linarith
    then show "k < 2 ^ 53 \<or> even k" by auto
  qed
  consider "m = 0" | "0 < m" | "m < 0" by linarith
  then show ?thesis
  proof cases
    case 1
    then show ?thesis by (simp add: round64_def)
  next
    case 2
    with assms ex [of m] show ?thesis by (simp add: round64_def)
  next
    case 3
    with assms ex [of "- m"] show ?thesis by (simp add: round64_def)
  qed
qed

lemma js_add_whole:
  assumes "\<bar>a + b\<bar> \<le> 2 ^ 53"
  shows "js_add (Fin (of_int a)) (Fin (of_int b)) = Fin (of_int (a + b))"
  using round64_whole [OF assms] by (simp add: js_add_def signed_zero_def)

lemma js_sub_whole:
  assumes "\<bar>a - b\<bar> \<le> 2 ^ 53" "b \<noteq> 0"
  shows "js_sub (Fin (of_int a)) (Fin (of_int b)) = Fin (of_int (a - b))"
  using round64_whole [OF assms(1)] assms(2) by (simp add: js_sub_def js_add_def)

lemma js_mul_26:
  assumes "0 \<le> a" "a * 26 < 2 ^ 54"
  shows "js_mul (Fin (of_int a)) (Fin 26) = Fin (of_int (a * 26))"
proof (cases "a = 0")
  case True
  then show ?thesis by (simp add: js_mul_def signed_zero_def)
next
  case False
  have "round64 (of_int (a * 26)) = Fin (of_int (a * 26))"
  proof (rule round64_int)
    show "0 < a * 26" using assms(1) False by simp
    show "a * 26 < 2 ^ 54" by (rule assms(2))
    show "a * 26 < 2 ^ 53 \<or> even (a * 26)" by simp
  qed
  with False show ?thesis by (simp add: js_mul_def)
qed

lemma towards_zero_of_int: "towards_zero (of_int z) = z"
  by (simp add: towards_zero_def)

lemma js_mod_26:
  assumes "0 \<le> c"
  shows "js_mod (Fin (of_int c)) (Fin 26) = Fin (of_int (c mod 26))"
proof (cases "c = 0")
  case True
  then show ?thesis by (simp add: js_mod_def)
next
  case False
  have "0 \<le> (of_int c :: rat) / 26" using assms by simp
  then have "towards_zero (of_int c / 26) = \<lfloor>(of_int c :: rat) / of_int 26\<rfloor>"
    by (simp add: towards_zero_def)
  also have "\<dots> = c div 26" by (rule floor_divide_of_int_eq)
  finally have t: "towards_zero (of_int c / 26) = c div 26" .
  have "(of_int c :: rat) - 26 * of_int (c div 26) = of_int (c - 26 * (c div 26))" by simp
  also have "c - 26 * (c div 26) = c mod 26" by (simp add: minus_mult_div_eq_mod)
  finally have r: "(of_int c :: rat) - 26 * of_int (c div 26) = of_int (c mod 26)" .
  show ?thesis
    using False assms by (simp add: js_mod_def t r Let_def signed_zero_def)
qed

lemma js_floor_div_26:
  assumes "0 \<le> c" "c \<le> 2 ^ 53"
  shows "js_floor (js_div (Fin (of_int c)) (Fin 26)) = Fin (of_int (c div 26))"
proof (cases "c = 0")
  case True
  then show ?thesis by (simp add: js_div_def signed_zero_def)
next
  case False
  with assms have "1 \<le> c" by simp
  from round64_div26 [OF this assms(2)]
  obtain r where "round64 (of_int c / 26) = Fin r" "\<lfloor>r\<rfloor> = c div 26" by blast
  with False show ?thesis by (simp add: js_div_def)
qed

lemma fromCharCode_letter:
  assumes "0 \<le> d" "d < 26"
  shows "fromCharCode (Fin (of_int (65 + d))) = char_of (65 + d)"
proof -
  have "(65 + d) mod 65536 = 65 + d" using assms by simp
  then show ?thesis
    unfolding fromCharCode_def fin_val.simps towards_zero_of_int by simp
qed

subsection \<open>Rounding keeps the bounds 1, 0 and -1\<close>








subsection \<open>Computing closed terms\<close>

lemma floor_numeral_div:
  "\<lfloor>(numeral a :: rat) / numeral b\<rfloor> = numeral a div numeral b"
  using floor_divide_of_int_eq [of "numeral a" "numeral b", where ?'a = rat] by simp

lemmas num_eval =
  floor_numeral_div positive_toString_def digits_k_def nearest_k_def format_number_def
  strip_zeros_def digits_of_def round64_def round64_pos_def ilog_def round_half_even_def
  ipow_def Let_def js_add_def js_sub_def js_mul_def js_div_def signed_zero_def
  signed_inf_def js_strict_eq_num_def parseFloat_def scan_decimal_def scan_exponent_def
  int_of_digits_def isDigit_def isUpper_def isWhiteSpace_def isIdentChar_def
  count_digits.simps digits_acc.simps shortest_digits.simps parseInt_digits_def
  column_step_def

section \<open>Properties of the reference codec\<close>

lemma upper_not_digit: "isDigit c \<Longrightarrow> \<not> isUpper c"
  by (simp add: isUpper_def isDigit_def)

lemma isUpper_label_char: "0 \<le> (d::int) \<Longrightarrow> d < 26 \<Longrightarrow> isUpper (char_of (65 + d))"
  by (simp add: isUpper_def)

lemma of_char_label_char:
  "0 \<le> (d::int) \<Longrightarrow> d < 26 \<Longrightarrow> (of_char (char_of (65 + d)) :: int) = 65 + d"
  by simp

lemma base26_label_step:
  "0 \<le> c \<Longrightarrow> base26_label c label = base26_label (c div 26 - 1) (char_of (65 + c mod 26) # label)"
  by (subst base26_label.simps) simp

lemma base26_label_stop: "c < 0 \<Longrightarrow> base26_label c label = label"
  by (subst base26_label.simps) simp

lemma base26_label_upper:
  "list_all isUpper label \<Longrightarrow> list_all isUpper (base26_label c label)"
proof (induction c label rule: base26_label.induct)
  case (1 c label)
  show ?case
  proof (cases "c \<ge> 0")
    case True
    have "isUpper (char_of (65 + c mod 26))"
      by (rule isUpper_label_char) simp_all
    with 1 True show ?thesis by (simp add: base26_label_step [of c])
  next
    case False
    with 1 show ?thesis by (simp add: base26_label_stop)
  qed
qed

lemma base26_label_nonempty: "0 \<le> c \<Longrightarrow> base26_label c label \<noteq> []"
proof (induction c label rule: base26_label.induct)
  case (1 c label)
  show ?case
  proof (cases "c div 26 - 1 \<ge> 0")
    case True
    with 1 show ?thesis by (simp add: base26_label_step [of c])
  next
    case False
    with 1 show ?thesis by (simp add: base26_label_step [of c] base26_label_stop)
  qed
qed

text \<open>
  Decoding what the loop produced from \<open>c\<close> in front of \<open>label\<close> is decoding
  \<open>label\<close> from the accumulator \<open>c + 1\<close>: the bijective base-26 digits of \<open>c + 1\<close>.
\<close>

lemma base26_label_decode:
  "0 \<le> c \<Longrightarrow>
   foldl (\<lambda>a ch. a * 26 + (of_char ch - 64)) 0 (base26_label c label) =
   foldl (\<lambda>a ch. a * 26 + (of_char ch - 64)) (c + 1) label"
proof (induction c label rule: base26_label.induct)
  case (1 c label)
  let ?d = "c mod 26"
  have d: "(of_char (char_of (65 + ?d)) :: int) = 65 + ?d"
    by (rule of_char_label_char) simp_all
  show ?case
  proof (cases "c div 26 - 1 \<ge> 0")
    case True
    have "c div 26 * 26 + (c mod 26 + 1) = c + 1" by simp
    with 1 True d show ?thesis by (simp add: base26_label_step [of c])
  next
    case False
    with 1 have "c div 26 = 0" by simp
    then have "c mod 26 = c"
      by (metis add.commute add.right_neutral mult_div_mod_eq mult_zero_right)
    with 1 False d show ?thesis
      by (simp add: add.commute base26_label_step [of c] base26_label_stop)
  qed
qed

text \<open>
  Up to \<open>2^53\<close> the loop of \<^verbatim>\<open>getColumnLabel\<close> computes on whole numbers without
  rounding, and returns the bijective base-26 numeral.
\<close>

lemma getColumnLabel_loop_whole:
  "- 1 \<le> c \<Longrightarrow> c \<le> 2 ^ 53 \<Longrightarrow>
   getColumnLabel_loop (Fin (of_int c)) label = Some (base26_label c label)"
proof (induction c label rule: base26_label.induct)
  case (1 c label)
  show ?case
  proof (cases "c \<ge> 0")
    case True
    have d: "0 \<le> c mod 26" "c mod 26 < 26" by simp_all
    have q: "0 \<le> c div 26" "c div 26 \<le> c"
      using True by (simp_all add: pos_imp_zdiv_nonneg_iff div_int_pos_iff)
    have "js_add (Fin (of_int 65)) (Fin (of_int (c mod 26))) = Fin (of_int (65 + c mod 26))"
      using d by (intro js_add_whole) simp
    then have ch: "fromCharCode (js_add (Fin 65) (js_mod (Fin (of_int c)) (Fin 26))) =
        char_of (65 + c mod 26)"
      using fromCharCode_letter [OF d] by (simp add: js_mod_26 [OF True])
    have "js_sub (Fin (of_int (c div 26))) (Fin (of_int 1)) = Fin (of_int (c div 26 - 1))"
      using q 1(3) by (intro js_sub_whole) simp_all
    then have nx: "js_sub (js_floor (js_div (Fin (of_int c)) (Fin 26))) (Fin 1) =
        Fin (of_int (c div 26 - 1))"
      by (simp add: js_floor_div_26 [OF True 1(3)])
    have "getColumnLabel_loop (Fin (of_int c)) label =
        getColumnLabel_loop (Fin (of_int (c div 26 - 1))) (char_of (65 + c mod 26) # label)"
      using True by (subst getColumnLabel_loop.simps) (simp add: ch nx)
    also have "\<dots> = Some (base26_label (c div 26 - 1) (char_of (65 + c mod 26) # label))"
      using q 1(3) True by (intro 1(1)) simp_all
    finally show ?thesis by (simp add: base26_label_step [OF True])
  next
    case False
    then show ?thesis
      by (subst getColumnLabel_loop.simps) (simp add: base26_label_stop)
  qed
qed

text \<open>The column loop of \<^verbatim>\<open>parseReference\<close> is exact as long as its value stays within \<open>2^53\<close>.\<close>

lemma column_step_whole:
  assumes "isUpper ch" "0 \<le> a" "a * 26 + (of_char ch - 64) \<le> 2 ^ 53"
  shows "column_step (Fin (of_int a)) ch = Fin (of_int (a * 26 + (of_char ch - 64)))"
proof -
  have d: "1 \<le> (of_char ch :: int) - 64" "(of_char ch :: int) - 64 \<le> 26"
    using assms(1) by (simp_all add: isUpper_def)
  have m: "js_mul (Fin (of_int a)) (Fin 26) = Fin (of_int (a * 26))"
    using assms(2,3) d by (intro js_mul_26) simp_all
  have "js_sub (Fin (of_int (of_char ch))) (Fin (of_int 64)) = Fin (of_int (of_char ch - 64))"
    using d by (intro js_sub_whole) simp_all
  then have s: "js_sub (Fin (of_int (of_char ch))) (Fin 64) = Fin (of_int (of_char ch - 64))"
    by simp
  have "js_add (Fin (of_int (a * 26))) (Fin (of_int (of_char ch - 64))) =
      Fin (of_int (a * 26 + (of_char ch - 64)))"
    using assms(2,3) d by (intro js_add_whole) simp
  then show ?thesis by (simp only: column_step_def m s)
qed

lemma decode_letters_increasing:
  "list_all isUpper ls \<Longrightarrow> 0 \<le> (a::int) \<Longrightarrow>
   a \<le> foldl (\<lambda>a ch. a * 26 + (of_char ch - 64)) a ls"
proof (induction ls arbitrary: a)
  case Nil
  then show ?case by simp
next
  case (Cons x xs)
  then have x: "1 \<le> (of_char x :: int) - 64" by (simp add: isUpper_def)
  with Cons.prems have a': "a \<le> a * 26 + (of_char x - 64)" by simp
  with Cons.prems have "0 \<le> a * 26 + (of_char x - 64)" by simp
  with Cons.IH [of "a * 26 + (of_char x - 64)"] Cons.prems a' show ?case by simp
qed

lemma column_loop_whole:
  "list_all isUpper ls \<Longrightarrow> 0 \<le> a \<Longrightarrow>
   foldl (\<lambda>a ch. a * 26 + (of_char ch - 64)) a ls \<le> 2 ^ 53 \<Longrightarrow>
   foldl column_step (Fin (of_int a)) ls =
     Fin (of_int (foldl (\<lambda>a ch. a * 26 + (of_char ch - 64)) a ls))"
proof (induction ls arbitrary: a)
  case Nil
  then show ?case by simp
next
  case (Cons x xs)
  let ?a = "a * 26 + (of_char x - 64)"
  from Cons.prems have x: "isUpper x" "list_all isUpper xs" by simp_all
  then have "1 \<le> (of_char x :: int) - 64" by (simp add: isUpper_def)
  with Cons.prems have nn: "0 \<le> ?a" by simp
  have "?a \<le> foldl (\<lambda>a ch. a * 26 + (of_char ch - 64)) ?a xs"
    using x(2) nn by (rule decode_letters_increasing)
  with Cons.prems(3) have le: "?a \<le> 2 ^ 53" by simp
  have "column_step (Fin (of_int a)) x = Fin (of_int ?a)"
    using x(1) Cons.prems(2) le by (rule column_step_whole)
  with Cons.IH [OF x(2) nn] Cons.prems(3) show ?case by simp
qed

lemma match_reference_append:
  assumes "list_all isUpper ls" "ls \<noteq> []" "list_all isDigit ds" "ds \<noteq> []"
  shows "match_reference (ls @ ds) = Some (ls, ds)"
proof -
  have nd: "\<not> isUpper (hd ds)"
    using assms(3,4) by (cases ds) (auto simp: upper_not_digit)
  have "takeWhile isUpper (ls @ ds) = ls"
    using assms(1,4) nd by (cases ds) (auto simp: list_all_iff takeWhile_append2 takeWhile_tail)
  moreover have "dropWhile isUpper (ls @ ds) = ds"
    using assms(1,4) nd by (cases ds) (auto simp: list_all_iff dropWhile_append2)
  ultimately show ?thesis
    using assms by (simp add: match_reference_def)
qed

lemma match_reference_iff: "match_reference s \<noteq> None \<longleftrightarrow> is_reference_pattern s"
proof
  assume "match_reference s \<noteq> None"
  then have "takeWhile isUpper s \<noteq> []" "dropWhile isUpper s \<noteq> []"
    "list_all isDigit (dropWhile isUpper s)"
    by (auto simp: match_reference_def Let_def split: if_splits)
  moreover have "s = takeWhile isUpper s @ dropWhile isUpper s" by simp
  moreover have "\<forall>c \<in> set (takeWhile isUpper s). isUpper c"
    by (auto dest: set_takeWhileD)
  ultimately show "is_reference_pattern s"
    unfolding is_reference_pattern_def list_all_iff by blast
next
  assume "is_reference_pattern s"
  then obtain ls ds where "s = ls @ ds" "ls \<noteq> []" "ds \<noteq> []"
    "\<forall>c \<in> set ls. isUpper c" "\<forall>c \<in> set ds. isDigit c"
    unfolding is_reference_pattern_def by blast
  then have "match_reference s = Some (ls, ds)"
    using match_reference_append [of ls ds] by (simp add: list_all_iff)
  then show "match_reference s \<noteq> None" by simp
qed

lemma row_of_1: "js_sub (parseInt_digits ''1'') (Fin 1) = Fin 0"
  by (simp add: num_eval)

lemma label_roundtrip:
  assumes c: "0 \<le> c" "c < 2 ^ 53"
  shows "getColumnLabel (Fin (of_int c)) = Some (base26_label c [])"
    and "parseReference (base26_label c [] @ ''1'') = Some \<lparr>row = Fin 0, col = Fin (of_int c)\<rparr>"
proof -
  show "getColumnLabel (Fin (of_int c)) = Some (base26_label c [])"
    unfolding getColumnLabel_def using c by (intro getColumnLabel_loop_whole) simp_all
  have up: "list_all isUpper (base26_label c [])"
    by (rule base26_label_upper) simp
  have m: "match_reference (base26_label c [] @ ''1'') = Some (base26_label c [], ''1'')"
  proof (rule match_reference_append)
    show "list_all isUpper (base26_label c [])" by (rule up)
    show "base26_label c [] \<noteq> []" by (rule base26_label_nonempty) (rule c)
    show "list_all isDigit ''1''" by (simp add: isDigit_def)
    show "''1'' \<noteq> []" by simp
  qed
  have dec: "foldl (\<lambda>a ch. a * 26 + (of_char ch - 64)) 0 (base26_label c []) = c + 1"
    using base26_label_decode [OF c(1), of "[]"] by simp
  have "foldl column_step (Fin (of_int 0)) (base26_label c []) =
      Fin (of_int (foldl (\<lambda>a ch. a * 26 + (of_char ch - 64)) 0 (base26_label c [])))"
    using up c(2) by (intro column_loop_whole) (simp_all add: dec)
  then have f: "foldl column_step (Fin 0) (base26_label c []) = Fin (of_int (c + 1))"
    by (simp add: dec)
  have "js_sub (Fin (of_int (c + 1))) (Fin (of_int 1)) = Fin (of_int (c + 1 - 1))"
    using c by (intro js_sub_whole) simp_all
  then have s: "js_sub (Fin (of_int (c + 1))) (Fin 1) = Fin (of_int c)"
    by (simp only: of_int_1 add_diff_cancel_right')
  have fs: "js_sub (foldl column_step (Fin 0) (base26_label c [])) (Fin 1) = Fin (of_int c)"
    by (simp only: f s)
  show "parseReference (base26_label c [] @ ''1'') = Some \<lparr>row = Fin 0, col = Fin (of_int c)\<rparr>"
    by (simp add: parseReference_def m fs row_of_1)
qed

lemma label_2_53: "base26_label (2 ^ 53) [] = ''BKTXHSOGHKKG''"
  by code_simp

lemma round64_2_53_plus_1: "round64 (2 ^ 53 + 1) = Fin (2 ^ 53)"
  by (simp add: num_eval)

lemma decode_2_53:
  "parseReference (''BKTXHSOGHKKG'' @ ''1'') = Some \<lparr>row = Fin 0, col = Fin (2 ^ 53 - 1)\<rparr>"
proof -
  have "foldl column_step (Fin (of_int 0)) ''BKTXHSOGHKK'' =
      Fin (of_int (foldl (\<lambda>a ch. a * 26 + (of_char ch - 64)) 0 ''BKTXHSOGHKK''))"
    by (intro column_loop_whole) (simp_all add: isUpper_def)
  then have p: "foldl column_step (Fin 0) ''BKTXHSOGHKK'' = Fin 346430740566961"
    by simp
  have m: "js_mul (Fin (of_int 346430740566961)) (Fin 26) = Fin (of_int (346430740566961 * 26))"
    by (intro js_mul_26) simp_all
  have "js_sub (Fin (of_int 71)) (Fin (of_int 64)) = Fin (of_int (71 - 64))"
    by (intro js_sub_whole) simp_all
  then have s: "js_sub (Fin 71) (Fin 64) = Fin 7" by simp
  have "column_step (Fin 346430740566961) CHR ''G'' = round64 (2 ^ 53 + 1)"
    using m by (simp add: column_step_def s js_add_def)
  then have l: "column_step (Fin 346430740566961) CHR ''G'' = Fin (2 ^ 53)"
    by (simp only: round64_2_53_plus_1)
  have "foldl column_step (Fin 0) (''BKTXHSOGHKK'' @ ''G'') = Fin (2 ^ 53)"
    unfolding foldl_append p using l by simp
  then have f: "foldl column_step (Fin 0) ''BKTXHSOGHKKG'' = Fin (2 ^ 53)" by simp
  have "js_sub (Fin (of_int (2 ^ 53))) (Fin (of_int 1)) = Fin (of_int (2 ^ 53 - 1))"
    by (intro js_sub_whole) simp_all
  then have d: "js_sub (Fin (2 ^ 53)) (Fin 1) = Fin (2 ^ 53 - 1)" by simp
  have mt: "match_reference ''BKTXHSOGHKKG1'' = Some (''BKTXHSOGHKKG'', ''1'')"
    by (simp add: match_reference_def isUpper_def isDigit_def)
  show ?thesis
    using f d by (simp add: parseReference_def mt row_of_1)
qed


text \<open>
  Claim C4, as stated, fails: the codec computes on binary64 numbers, where sums beyond
  \<open>2^53\<close> are rounded. The column index \<open>2^53 = 9007199254740992\<close> has the label
  \<^verbatim>\<open>BKTXHSOGHKKG\<close>, and decoding that label gives the column \<open>2^53 - 1\<close>: the last
  step of the decoder adds 7 to \<open>2^53 - 6\<close>, which rounds to \<open>2^53\<close>.
\<close>

theorem C4_roundtrip_counterexample:
  "getColumnLabel (Fin (2 ^ 53)) = Some ''BKTXHSOGHKKG'' \<and>
   parseReference (''BKTXHSOGHKKG'' @ ''1'') = Some \<lparr>row = Fin 0, col = Fin (2 ^ 53 - 1)\<rparr>"
proof -
  have "getColumnLabel_loop (Fin (of_int (2 ^ 53))) [] = Some (base26_label (2 ^ 53) [])"
    by (intro getColumnLabel_loop_whole) simp_all
  then have "getColumnLabel_loop (Fin (of_int (2 ^ 53))) [] = Some ''BKTXHSOGHKKG''"
    by (simp only: label_2_53)
  then have "getColumnLabel (Fin (2 ^ 53)) = Some ''BKTXHSOGHKKG''"
    by (simp add: getColumnLabel_def)
  with decode_2_53 show ?thesis by simp
qed

text \<open>
  Claim C4, amended. For every whole column index \<open>c\<close> with \<open>0 \<le> c < 2^53\<close>, the
  label of \<open>c\<close> is the bijective base-26 numeral of \<open>c\<close>, and decoding it with the row
  digit \<open>1\<close> appended succeeds and gives back the column \<open>c\<close> (and row 0).
\<close>

theorem C4_label_roundtrip:
  "0 \<le> c \<Longrightarrow> c < 2 ^ 53 \<Longrightarrow>
   getColumnLabel (Fin (of_int c)) = Some (base26_label c []) \<and>
   parseReference (base26_label c [] @ ''1'') = Some \<lparr>row = Fin 0, col = Fin (of_int c)\<rparr>"
  using label_roundtrip [of c] by simp

theorem C4_label_roundtrip_witness:
  "(0::int) \<le> 27 \<and> (27::int) < 2 ^ 53 \<and> getColumnLabel (Fin 27) = Some ''AB'' \<and>
   parseReference (''AB'' @ ''1'') = Some \<lparr>row = Fin 0, col = Fin 27\<rparr>"
proof -
  have "base26_label 27 [] = ''AB''"
    by code_simp
  then show ?thesis
    using C4_label_roundtrip [of 27] by simp
qed








text \<open>
  Claim C9. A text that is not a run of capitals followed by a run of digits is answered
  with \<open>None\<close> (the \<^verbatim>\<open>null\<close> of the source); \<^verbatim>\<open>parseReference\<close> has no other way
  out, it raises nothing on any string.
\<close>

theorem C9_mismatch_none: "\<not> is_reference_pattern s \<Longrightarrow> parseReference s = None"
  using match_reference_iff [of s]
  by (cases "match_reference s") (auto simp: parseReference_def)

theorem C9_mismatch_none_witness:
  "\<not> is_reference_pattern ''a1'' \<and> parseReference ''a1'' = None"
proof -
  have "match_reference ''a1'' = None"
    by (simp add: match_reference_def isUpper_def)
  then have "\<not> is_reference_pattern ''a1''"
    using match_reference_iff [of "''a1''"] by simp
  then show ?thesis
    using C9_mismatch_none [of "''a1''"] by simp
qed

section \<open>Properties of the viewport window\<close>

text \<open>
  Claim C5, as stated, fails: only the end indices are clamped (by \<^verbatim>\<open>Math.min\<close>), the
  start indices are not. A negative scroll offset gives a negative start row, and an
  offset beyond the last row gives a start row above the end row.
\<close>

theorem C5_window_counterexample:
  "startRow (visibleRange (- 30) 0 600 800) = - 1 \<and>
   startRow (visibleRange 600000 0 600 800) = 20000 \<and>
   endRow (visibleRange 600000 0 600 800) = 10000"
  by code_simp

lemma visibleRange_fields:
  "startRow (visibleRange scrollTop scrollLeft height width) = \<lfloor>scrollTop / 30\<rfloor>"
  "endRow (visibleRange scrollTop scrollLeft height width) =
     min (\<lfloor>scrollTop / 30\<rfloor> + \<lfloor>height / 30\<rfloor> + 2) 10000"
  "startCol (visibleRange scrollTop scrollLeft height width) = \<lfloor>scrollLeft / 100\<rfloor>"
  "endCol (visibleRange scrollTop scrollLeft height width) =
     min (\<lfloor>scrollLeft / 100\<rfloor> + \<lfloor>width / 100\<rfloor> + 2) 10000"
  by (simp_all add: visibleRange_def Let_def CELL_HEIGHT_def CELL_WIDTH_def TOTAL_ROWS_def
      TOTAL_COLS_def)

lemma floor_quotient_bounds:
  fixes x :: rat
  assumes "0 \<le> x" "x \<le> of_int (n * d)" "0 < d"
  shows "0 \<le> \<lfloor>x / of_int d\<rfloor> \<and> \<lfloor>x / of_int d\<rfloor> \<le> n"
proof -
  have "x / of_int d \<le> of_int n"
    using assms by (simp add: pos_divide_le_eq)
  then have "\<lfloor>x / of_int d\<rfloor> \<le> n"
    by (simp add: floor_le_iff)
  moreover have "0 \<le> \<lfloor>x / of_int d\<rfloor>"
    using assms by simp
  ultimately show ?thesis by simp
qed

text \<open>
  Claim C5, amended. The end indices are at most the totals for every input. For a
  scroll offset inside the scrollable area and a window size that is not negative, the
  start index is at least 0 and at most the end index: \<open>0 \<le> startRow \<le> endRow \<le>
  TOTAL_ROWS\<close>, and likewise for the columns.
\<close>

theorem C5_window_in_range:
  "endRow (visibleRange scrollTop scrollLeft height width) \<le> TOTAL_ROWS \<and>
   endCol (visibleRange scrollTop scrollLeft height width) \<le> TOTAL_COLS \<and>
   (0 \<le> scrollTop \<and> scrollTop \<le> of_int (TOTAL_ROWS * CELL_HEIGHT) \<and> 0 \<le> height \<longrightarrow>
      0 \<le> startRow (visibleRange scrollTop scrollLeft height width) \<and>
      startRow (visibleRange scrollTop scrollLeft height width)
        \<le> endRow (visibleRange scrollTop scrollLeft height width)) \<and>
   (0 \<le> scrollLeft \<and> scrollLeft \<le> of_int (TOTAL_COLS * CELL_WIDTH) \<and> 0 \<le> width \<longrightarrow>
      0 \<le> startCol (visibleRange scrollTop scrollLeft height width) \<and>
      startCol (visibleRange scrollTop scrollLeft height width)
        \<le> endCol (visibleRange scrollTop scrollLeft height width))"
proof -
  let ?w = "visibleRange scrollTop scrollLeft height width"
  have ends: "endRow ?w \<le> TOTAL_ROWS" "endCol ?w \<le> TOTAL_COLS"
    by (simp_all add: visibleRange_fields TOTAL_ROWS_def TOTAL_COLS_def)
  have rows: "0 \<le> startRow ?w \<and> startRow ?w \<le> endRow ?w"
    if "0 \<le> scrollTop \<and> scrollTop \<le> of_int (TOTAL_ROWS * CELL_HEIGHT) \<and> 0 \<le> height"
  proof -
    from that have "scrollTop \<le> of_int (10000 * 30)"
      by (simp add: TOTAL_ROWS_def CELL_HEIGHT_def)
    with that have "0 \<le> \<lfloor>scrollTop / 30\<rfloor> \<and> \<lfloor>scrollTop / 30\<rfloor> \<le> 10000"
      using floor_quotient_bounds [of scrollTop 10000 30] by simp
    moreover from that have "0 \<le> \<lfloor>height / 30\<rfloor>" by simp
    ultimately show ?thesis
      unfolding visibleRange_fields by linarith
  qed
  have cols: "0 \<le> startCol ?w \<and> startCol ?w \<le> endCol ?w"
    if "0 \<le> scrollLeft \<and> scrollLeft \<le> of_int (TOTAL_COLS * CELL_WIDTH) \<and> 0 \<le> width"
  proof -
    from that have "scrollLeft \<le> of_int (10000 * 100)"
      by (simp add: TOTAL_COLS_def CELL_WIDTH_def)
    with that have "0 \<le> \<lfloor>scrollLeft / 100\<rfloor> \<and> \<lfloor>scrollLeft / 100\<rfloor> \<le> 10000"
      using floor_quotient_bounds [of scrollLeft 10000 100] by simp
    moreover from that have "0 \<le> \<lfloor>width / 100\<rfloor>" by simp
    ultimately show ?thesis
      unfolding visibleRange_fields by linarith
  qed
  from ends rows cols show ?thesis by blast
qed

theorem C5_window_in_range_witness:
  "0 \<le> startRow (visibleRange 299400 45 600 800) \<and>
   startRow (visibleRange 299400 45 600 800) \<le> endRow (visibleRange 299400 45 600 800) \<and>
   endRow (visibleRange 299400 45 600 800) \<le> TOTAL_ROWS \<and>
   0 \<le> startCol (visibleRange 299400 45 600 800) \<and>
   startCol (visibleRange 299400 45 600 800) \<le> endCol (visibleRange 299400 45 600 800) \<and>
   endCol (visibleRange 299400 45 600 800) \<le> TOTAL_COLS"
proof -
  have "(0::rat) \<le> 299400 \<and> (299400::rat) \<le> of_int (TOTAL_ROWS * CELL_HEIGHT) \<and> (0::rat) \<le> 600"
    "(0::rat) \<le> 45 \<and> (45::rat) \<le> of_int (TOTAL_COLS * CELL_WIDTH) \<and> (0::rat) \<le> 800"
    by (simp_all add: TOTAL_ROWS_def TOTAL_COLS_def CELL_HEIGHT_def CELL_WIDTH_def)
  then show ?thesis
    using C5_window_in_range [of 299400 45 600 800] by blast
qed

section \<open>Properties of the evaluator and of the cell store\<close>

lemmas store_eval =
  write_cell_def cell_key_def evaluateFormula_def evaluateFormula_try_def function_body_def
  reference_text_def parseReference_def match_reference_def arith_runtime_def js_arith_def
  use_strict_return_def getCellData_def js_bind_def js_return_def js_throw_def js_catch_def

subsection \<open>Exceptions\<close>

lemma evaluateFormula_no_throw: "evaluateFormula rt formulaText cells w \<noteq> Some (Throws, w')"
  by (auto simp: evaluateFormula_def js_catch_def split: option.splits completion.splits)

lemma pass_no_throw: "recalculate_pass rt visited todo changed w \<noteq> Some (Throws, w')"
proof (induction todo arbitrary: visited changed w)
  case Nil
  then show ?case by (simp add: js_return_def)
next
  case (Cons entry todo)
  obtain key cell where entry: "entry = (key, cell)" by (cases entry)
  show ?case
  proof (cases "formula cell = None \<or> formula cell = Some []")
    case True
    then show ?thesis using Cons.IH by (auto simp: entry)
  next
    case False
    then obtain f where f: "formula cell = Some f" "f \<noteq> []" by auto
    show ?thesis
    proof (cases "evaluateFormula rt f (visited @ (key, cell) # todo) w")
      case None
      then show ?thesis by (simp add: entry f js_bind_def)
    next
      case (Some r)
      obtain res w1 where r: "r = (res, w1)" by (cases r)
      show ?thesis
      proof (cases res)
        case Throws
        with Some r evaluateFormula_no_throw [of rt f "visited @ (key, cell) # todo" w w1]
        show ?thesis by simp
      next
        case (Returns new)
        with Some r Cons.IH show ?thesis by (simp add: entry f js_bind_def)
      qed
    qed
  qed
qed

subsection \<open>The loop\<close>

lemma recalculate_stable:
  "recalculate_pass rt [] cells False w = Some (Returns (cells', False), w') \<Longrightarrow>
   recalculate rt cells w = Some (Returns cells', w')"
  by (subst recalculate.simps) simp

lemma recalculate_step:
  "recalculate_pass rt [] cells False w = Some (Returns (cells', True), w') \<Longrightarrow>
   recalculate rt cells w = recalculate rt cells' w'"
  by (subst recalculate.simps) simp

lemma recalculate_cases:
  assumes "recalculate rt cells w = Some r"
  obtains cells' w' where "recalculate_pass rt [] cells False w = Some (Returns (cells', False), w')"
      "r = (Returns cells', w')"
    | cells' w' where "recalculate_pass rt [] cells False w = Some (Returns (cells', True), w')"
      "recalculate rt cells' w' = Some r"
proof (cases "recalculate_pass rt [] cells False w")
  case None
  with assms show ?thesis by (subst (asm) recalculate.simps) simp
next
  case (Some p)
  obtain res w' where p: "p = (res, w')" by (cases p)
  show ?thesis
  proof (cases res)
    case Throws
    with Some p pass_no_throw [of rt "[]" cells False w w'] show ?thesis by simp
  next
    case (Returns q)
    obtain cells' changed where q: "q = (cells', changed)" by (cases q)
    from assms Some p Returns q that show ?thesis
      by (subst (asm) recalculate.simps) (cases changed; simp)
  qed
qed





subsection \<open>The examples, step by step\<close>

lemma key_0_0: "cell_key (Fin 0) (Fin 0) = ''0-0''"
  by (simp add: cell_key_def)

lemma key_0_1: "cell_key (Fin 0) (Fin 1) = ''0-1''"
  by (simp add: cell_key_def num_eval)


lemma write_A5: "write_cell arith_runtime [] (Fin 0) (Fin 0) ''5'' () = Some (Returns sheet_A5, ())"
  by (simp add: sheet_A5_def write_cell_def key_0_0 js_bind_def js_return_def)

lemma pass_A5:
  "recalculate_pass arith_runtime [] sheet_A5 False () = Some (Returns (sheet_A5, False), ())"
  by (simp add: sheet_A5_def js_return_def)

lemma update_A5:
  "updateCell arith_runtime [] (Fin 0) (Fin 0) ''5'' () = Some (Returns sheet_A5, ())"
  by (simp add: updateCell_def js_bind_def write_A5 recalculate_stable [OF pass_A5])

lemma write_B10:
  "write_cell arith_runtime sheet_A5 (Fin 0) (Fin 1) ''=A1*2'' () = Some (Returns sheet_A5_B10, ())"
  by (simp add: sheet_A5_def sheet_A5_B10_def num_eval store_eval)

lemma pass_B10:
  "recalculate_pass arith_runtime [] sheet_A5_B10 False () =
     Some (Returns (sheet_A5_B10, False), ())"
  by (simp add: sheet_A5_B10_def num_eval store_eval)

lemma update_B10:
  "updateCell arith_runtime sheet_A5 (Fin 0) (Fin 1) ''=A1*2'' () =
     Some (Returns sheet_A5_B10, ())"
  by (simp add: updateCell_def js_bind_def write_B10 recalculate_stable [OF pass_B10])

lemma write_A7:
  "write_cell arith_runtime sheet_A5_B10 (Fin 0) (Fin 0) ''7'' () =
     Some (Returns sheet_A7_B10, ())"
  by (simp add: sheet_A5_B10_def sheet_A7_B10_def write_cell_def key_0_0 js_bind_def
      js_return_def)

lemma pass_A7:
  "recalculate_pass arith_runtime [] sheet_A7_B10 False () =
     Some (Returns (sheet_A7_B14, True), ())"
  by (simp add: sheet_A7_B10_def sheet_A7_B14_def num_eval store_eval)

lemma pass_B14:
  "recalculate_pass arith_runtime [] sheet_A7_B14 False () =
     Some (Returns (sheet_A7_B14, False), ())"
  by (simp add: sheet_A7_B14_def num_eval store_eval)

lemma update_A7:
  "updateCell arith_runtime sheet_A5_B10 (Fin 0) (Fin 0) ''7'' () =
     Some (Returns sheet_A7_B14, ())"
  by (simp add: updateCell_def js_bind_def write_A7 recalculate_step [OF pass_A7]
      recalculate_stable [OF pass_B14])













subsection \<open>What a pass keeps\<close>






subsection \<open>The direct write\<close>










subsection \<open>Returning\<close>











subsection \<open>The runtime with objects\<close>









subsection \<open>The cycle of two cells that add 1 to each other\<close>


























subsection \<open>The claims\<close>




text \<open>
  Claim C2. From the empty sheet, \<^verbatim>\<open>A1 = "5"\<close> and then \<^verbatim>\<open>B1 = "=A1*2"\<close> leave
  \<^verbatim>\<open>B1\<close> with the cached value 10; then \<^verbatim>\<open>A1 = "7"\<close> makes the recalculation
  turn it into 14. All three calls return.
\<close>

theorem C2_propagation:
  "updateCell arith_runtime [] (Fin 0) (Fin 0) ''5'' () = Some (Returns sheet_A5, ()) \<and>
   getCellData sheet_A5 (Fin 0) (Fin 0) =
     Some \<lparr>value' = ''5'', formula = None, computed = VUndefined\<rparr> \<and>
   updateCell arith_runtime sheet_A5 (Fin 0) (Fin 1) ''=A1*2'' () =
     Some (Returns sheet_A5_B10, ()) \<and>
   getCellData sheet_A5_B10 (Fin 0) (Fin 1) =
     Some \<lparr>value' = ''=A1*2'', formula = Some ''=A1*2'', computed = VNum (Fin 10)\<rparr> \<and>
   updateCell arith_runtime sheet_A5_B10 (Fin 0) (Fin 0) ''7'' () =
     Some (Returns sheet_A7_B14, ()) \<and>
   getCellData sheet_A7_B14 (Fin 0) (Fin 1) =
     Some \<lparr>value' = ''=A1*2'', formula = Some ''=A1*2'', computed = VNum (Fin 14)\<rparr>"
proof -
  have "getCellData sheet_A5 (Fin 0) (Fin 0) =
      Some \<lparr>value' = ''5'', formula = None, computed = VUndefined\<rparr>"
    by (simp add: sheet_A5_def getCellData_def key_0_0)
  moreover have "getCellData sheet_A5_B10 (Fin 0) (Fin 1) =
      Some \<lparr>value' = ''=A1*2'', formula = Some ''=A1*2'', computed = VNum (Fin 10)\<rparr>"
    by (simp add: sheet_A5_B10_def getCellData_def key_0_1)
  moreover have "getCellData sheet_A7_B14 (Fin 0) (Fin 1) =
      Some \<lparr>value' = ''=A1*2'', formula = Some ''=A1*2'', computed = VNum (Fin 14)\<rparr>"
    by (simp add: sheet_A7_B14_def getCellData_def key_0_1)
  ultimately show ?thesis
    using update_A5 update_B10 update_A7 by simp
qed

text \<open>
  Claim C3, as stated, fails: the division \<^verbatim>\<open>1/0\<close> throws nothing, its result is the
  number \<^verbatim>\<open>Infinity\<close>, and \<^verbatim>\<open>evaluateFormula\<close> returns every number as it is, on
  every sheet.
\<close>

theorem C3_infinity_counterexample:
  "(\<forall>cells. evaluateFormula arith_runtime ''=1/0'' cells () =
      Some (Returns (VNum PosInf), ())) \<and>
   (\<forall>cells. evaluateFormula arith_runtime ''=0/0'' cells () = Some (Returns (VNum NaN), ()))"
  by (simp add: num_eval store_eval)

text \<open>
  Claim C3, amended. When the evaluation of the substituted expression throws, the
  result is the marker \<^verbatim>\<open>#ERROR\<close>, and so it is when the substitution itself throws;
  when the evaluation produces a number, that number is the result, also when it is
  \<^verbatim>\<open>NaN\<close> or an infinity.
\<close>

theorem C3_marker_only_when_thrown:
  "(replace_references (reference_text rt cells) (drop 1 formulaText) w = Some (Returns e, w1) \<and>
    call_Function rt (function_body e) w1 = Some (Throws, w2) \<longrightarrow>
    evaluateFormula rt formulaText cells w = Some (Returns (VStr ''#ERROR''), w2)) \<and>
   (replace_references (reference_text rt cells) (drop 1 formulaText) w = Some (Returns e, w1) \<and>
    call_Function rt (function_body e) w1 = Some (Returns (VNum n), w2) \<longrightarrow>
    evaluateFormula rt formulaText cells w = Some (Returns (VNum n), w2)) \<and>
   (replace_references (reference_text rt cells) (drop 1 formulaText) w = Some (Throws, w1) \<longrightarrow>
    evaluateFormula rt formulaText cells w = Some (Returns (VStr ''#ERROR''), w1))"
  by (simp add: evaluateFormula_def evaluateFormula_try_def js_bind_def js_catch_def
      js_return_def)

theorem C3_marker_only_when_thrown_witness:
  "replace_references (reference_text arith_runtime []) (drop 1 ''=1/'') () =
     Some (Returns ''1/'', ()) \<and>
   call_Function arith_runtime (function_body ''1/'') () = Some (Throws, ()) \<and>
   evaluateFormula arith_runtime ''=1/'' [] () = Some (Returns (VStr ''#ERROR''), ()) \<and>
   replace_references (reference_text arith_runtime []) (drop 1 ''=1/0'') () =
     Some (Returns ''1/0'', ()) \<and>
   call_Function arith_runtime (function_body ''1/0'') () = Some (Returns (VNum PosInf), ()) \<and>
   evaluateFormula arith_runtime ''=1/0'' [] () = Some (Returns (VNum PosInf), ()) \<and>
   replace_references (reference_text arith_runtime sheet_null) (drop 1 ''=A1+1'') () =
     Some (Throws, ()) \<and>
   evaluateFormula arith_runtime ''=A1+1'' sheet_null () = Some (Returns (VStr ''#ERROR''), ())"
proof -
  have a: "replace_references (reference_text arith_runtime []) (drop 1 ''=1/'') () =
      Some (Returns ''1/'', ())"
    "call_Function arith_runtime (function_body ''1/'') () = Some (Throws, ())"
    by (simp_all add: num_eval store_eval)
  have b: "replace_references (reference_text arith_runtime []) (drop 1 ''=1/0'') () =
      Some (Returns ''1/0'', ())"
    "call_Function arith_runtime (function_body ''1/0'') () = Some (Returns (VNum PosInf), ())"
    by (simp_all add: num_eval store_eval)
  have c: "replace_references (reference_text arith_runtime sheet_null) (drop 1 ''=A1+1'') () =
      Some (Throws, ())"
    by (simp add: sheet_null_def num_eval store_eval)
  show ?thesis
    using a b c
      C3_marker_only_when_thrown [of arith_runtime "[]" "''=1/''" "()" "''1/''" "()" "()" PosInf]
      C3_marker_only_when_thrown [of arith_runtime "[]" "''=1/0''" "()" "''1/0''" "()" "()" PosInf]
      C3_marker_only_when_thrown [of arith_runtime sheet_null "''=A1+1''" "()" "''1/''" "()" "()"]
    by blast
qed











end
